theory Spec2Isabelle
  imports Complex_Main
begin

section \<open>Python values\<close>

text \<open>
  The values that travel through the program are the ones \<^verbatim>\<open>json.loads\<close> and
  \<^verbatim>\<open>response.json()\<close> produce: \<^verbatim>\<open>None\<close>, booleans, numbers, strings, lists and
  dictionaries. A dictionary is an association list in insertion order (the order
  \<^verbatim>\<open>json.dumps\<close> writes), read with \<open>map_of\<close>. Strings are \<open>string\<close>, a character
  being a code point below 256.
\<close>

datatype json =
    JNull
  | JBool bool
  | JNum rat
  | JStr string
  | JArr "json list"
  | JObj "(string \<times> json) list"

text \<open>Truth value of an object, as \<^verbatim>\<open>if embedding:\<close> and \<^verbatim>\<open>if not retrieved_docs:\<close> test it.\<close>

fun truthy :: "json \<Rightarrow> bool" where
  "truthy JNull = False"
| "truthy (JBool b) = b"
| "truthy (JNum r) = (r \<noteq> 0)"
| "truthy (JStr s) = (s \<noteq> [])"
| "truthy (JArr xs) = (xs \<noteq> [])"
| "truthy (JObj kvs) = (kvs \<noteq> [])"

subsection \<open>Exceptions\<close>

text \<open>
  An exception is known by the classes it is an instance of; an \<^verbatim>\<open>except C\<close> clause
  catches it when \<open>C\<close> is among them. The exceptions of the libraries come from the
  environment, so their class lists are data.
\<close>

datatype py_class =
    BaseException
  | Exception
  | ValueError
  | LookupError
  | KeyError
  | IndexError
  | TypeError
  | AttributeError
  | IOError
  | NameError
  | UnboundLocalError
  | UnicodeDecodeError
  | RuntimeError
  | RecursionError
  | JSONDecodeError
  | RequestException
  | InvalidJSONError
  | RequestsJSONDecodeError

datatype exn = Exn (classes: "py_class list")

definition isinstance :: "exn \<Rightarrow> py_class \<Rightarrow> bool" where
  "isinstance e c = (c \<in> set (classes e))"

definition key_error :: exn where
  "key_error = Exn [KeyError, LookupError, Exception, BaseException]"

definition index_error :: exn where
  "index_error = Exn [IndexError, LookupError, Exception, BaseException]"

definition type_error :: exn where
  "type_error = Exn [TypeError, Exception, BaseException]"

definition attribute_error :: exn where
  "attribute_error = Exn [AttributeError, Exception, BaseException]"

text \<open>What reading a local variable raises when nothing was assigned to it yet.\<close>

definition unbound_local_error :: exn where
  "unbound_local_error = Exn [UnboundLocalError, NameError, Exception, BaseException]"

text \<open>\<^verbatim>\<open>json.JSONDecodeError\<close>, as \<^verbatim>\<open>json.loads\<close> raises it.\<close>

definition json_decode_error :: exn where
  "json_decode_error = Exn [JSONDecodeError, ValueError, Exception, BaseException]"

text \<open>
  A plain \<^verbatim>\<open>ValueError\<close>: what \<^verbatim>\<open>json.loads\<close> raises on an integer of more digits than
  the interpreter converts (4300 by default).
\<close>

definition value_error :: exn where
  "value_error = Exn [ValueError, Exception, BaseException]"

text \<open>
  \<^verbatim>\<open>RecursionError\<close>: what \<^verbatim>\<open>json.loads\<close> raises on a text that is nested deeper than
  the recursion limit of the interpreter.
\<close>

definition recursion_error :: exn where
  "recursion_error = Exn [RecursionError, RuntimeError, Exception, BaseException]"

text \<open>What reading a text file raises on bytes that are not UTF-8.\<close>

definition unicode_decode_error :: exn where
  "unicode_decode_error = Exn [UnicodeDecodeError, ValueError, Exception, BaseException]"

text \<open>\<^verbatim>\<open>OSError\<close>, of which \<^verbatim>\<open>IOError\<close> is the other name: what a failing \<^verbatim>\<open>open\<close> raises.\<close>

definition os_error :: exn where
  "os_error = Exn [IOError, Exception, BaseException]"

text \<open>
  \<^verbatim>\<open>requests.exceptions.ConnectionError\<close>, \<^verbatim>\<open>Timeout\<close> and \<^verbatim>\<open>HTTPError\<close> (what
  \<^verbatim>\<open>raise_for_status\<close> raises) are all of this shape: a \<^verbatim>\<open>RequestException\<close>, which
  the library derives from \<^verbatim>\<open>IOError\<close>.
\<close>

definition request_exception :: exn where
  "request_exception = Exn [RequestException, IOError, Exception, BaseException]"

text \<open>
  What \<^verbatim>\<open>Response.json()\<close> raises on a body that is not JSON, in requests 2.27 and
  later: \<^verbatim>\<open>requests.exceptions.JSONDecodeError\<close>, declared there as
  \<^verbatim>\<open>class JSONDecodeError(InvalidJSONError, json.JSONDecodeError)\<close> with
  \<^verbatim>\<open>class InvalidJSONError(RequestException)\<close>.
\<close>

definition requests_json_decode_error :: exn where
  "requests_json_decode_error =
     Exn [RequestsJSONDecodeError, InvalidJSONError, RequestException, IOError,
          JSONDecodeError, ValueError, Exception, BaseException]"

subsection \<open>Operations on values\<close>

text \<open>\<^verbatim>\<open>v[key]\<close> with a string key.\<close>

fun subscript :: "json \<Rightarrow> string \<Rightarrow> exn + json" where
  "subscript (JObj kvs) k = (case map_of kvs k of None \<Rightarrow> Inl key_error | Some v \<Rightarrow> Inr v)"
| "subscript v k = Inl type_error"

text \<open>\<^verbatim>\<open>v.get(key, default)\<close>: only a dictionary has the method.\<close>

fun get :: "json \<Rightarrow> string \<Rightarrow> json \<Rightarrow> exn + json" where
  "get (JObj kvs) k d = (case map_of kvs k of None \<Rightarrow> Inr d | Some v \<Rightarrow> Inr v)"
| "get v k d = Inl attribute_error"

text \<open>\<^verbatim>\<open>str.isspace\<close> on one character: the white space among the code points below 256.\<close>

definition isspace :: "char \<Rightarrow> bool" where
  "isspace c = (c \<in> set [CHR '' '', CHR 0x09, CHR 0x0A, CHR 0x0B, CHR 0x0C, CHR 0x0D,
                          CHR 0x1C, CHR 0x1D, CHR 0x1E, CHR 0x1F, CHR 0x85, CHR 0xA0])"

definition str_strip :: "string \<Rightarrow> string" where
  "str_strip s = rev (dropWhile isspace (rev (dropWhile isspace s)))"

text \<open>\<^verbatim>\<open>v.strip()\<close>: only a string has the method.\<close>

fun strip :: "json \<Rightarrow> exn + string" where
  "strip (JStr s) = Inr (str_strip s)"
| "strip v = Inl attribute_error"

text \<open>\<^verbatim>\<open>xs[0]\<close>.\<close>

fun index0 :: "'a list \<Rightarrow> exn + 'a" where
  "index0 [] = Inl index_error"
| "index0 (x # xs) = Inr x"

section \<open>The world outside the program\<close>

text \<open>
  The outcome of an HTTP request. Either \<^verbatim>\<open>requests.post\<close> raises, and then the
  variable \<^verbatim>\<open>response\<close> is never assigned; or there is a response, with its text, with
  what \<^verbatim>\<open>raise_for_status\<close> raises (\<open>None\<close> for a good status) and with what
  \<^verbatim>\<open>response.json()\<close> makes of the body.
\<close>

datatype http_result =
    PostRaises exn
  | Response (body: string) (status_error: "exn option") (json_result: "exn + json")

text \<open>The arguments of \<^verbatim>\<open>collection.add\<close>.\<close>

record add_args =
  ids :: "string list"
  embeddings :: "json list"
  documents :: "string list"
  metadatas :: "(string \<times> string) list list"

text \<open>The print statements, one constructor each, with what they interpolate.\<close>

datatype report =
    EmbeddingRequestError exn
  | EmbeddingKeyNotFound string
  | EmbeddingDecodeError string
  | ChatRequestError exn
  | ChatDecodeError string
  | SaveNotInitialized
  | HistorySaveError exn
  | ChromaAddError string exn
  | NoEmbeddingForTurn string
  | SkippingMalformedLine nat
  | HistoryLoadError exn
  | RetrieveNotInitialized
  | CountError exn
  | NoQueryEmbedding
  | DocumentDecodeError string
  | QueryError exn

text \<open>What the program does to the outside, in the order it does it.\<close>

datatype event =
    HttpPost string json
  | PathExists
  | OpenAppend
  | FileWrite string
  | OpenRead
  | CollectionCount
  | CollectionQuery json int
  | CollectionAdd add_args
  | Print report

text \<open>
  The environment answers the calls the program makes into libraries and services.
  \<open>'c\<close> is the state of the ChromaDB collection, which the program only reaches
  through \<open>count\<close>, \<open>query\<close> and \<open>add\<close>. \<open>query\<close> returns the
  \<^verbatim>\<open>'documents'\<close> entry of the result dictionary (\<open>None\<close> when the key is absent).
  \<open>loads\<close> is \<^verbatim>\<open>json.loads\<close>, which returns a value or raises: \<^verbatim>\<open>json.JSONDecodeError\<close>
  on a text that is not JSON, and on some texts another exception (\<^verbatim>\<open>ValueError\<close> on an
  integer of too many digits, \<^verbatim>\<open>RecursionError\<close> on a nesting too deep).
  The fields \<open>open_append_raises\<close>, \<open>write_raises\<close> and \<open>open_read_raises\<close> say whether
  opening the history file for appending, writing to it, or opening it for reading
  fails, and with what. \<open>read_raises = Some (k, e)\<close> says that iterating over the file
  raises \<open>e\<close> after \<open>k\<close> lines were yielded (at most: the file may be shorter), as
  decoding bytes that are not UTF-8 does.
\<close>

record 'c env =
  post :: "string \<Rightarrow> json \<Rightarrow> http_result"
  dumps :: "json \<Rightarrow> string"
  loads :: "string \<Rightarrow> exn + json"
  open_append_raises :: "exn option"
  write_raises :: "exn option"
  open_read_raises :: "exn option"
  read_raises :: "(nat \<times> exn) option"
  count :: "'c \<Rightarrow> exn + nat"
  query :: "'c \<Rightarrow> json \<Rightarrow> int \<Rightarrow> exn + string list list option"
  add :: "'c \<Rightarrow> add_args \<Rightarrow> exn option \<times> 'c"

text \<open>
  The state the program works on: the text of \<^verbatim>\<open>history.jsonl\<close> (\<open>None\<close> when there
  is no such file), the module's \<^verbatim>\<open>collection\<close> (\<open>None\<close> when ChromaDB failed to
  initialise) and the trace of events so far.
\<close>

record 'c world =
  history_file :: "string option"
  collection :: "'c option"
  trace :: "event list"

definition emit :: "event \<Rightarrow> 'c world \<Rightarrow> 'c world" where
  "emit ev w = w\<lparr>trace := trace w @ [ev]\<rparr>"

section \<open>ollama\_interface.py\<close>

definition OLLAMA_BASE_URL :: string where
  "OLLAMA_BASE_URL = ''http://localhost:11434''"

definition GENERATION_MODEL_NAME :: string where
  "GENERATION_MODEL_NAME = ''gemma2:2b''"

definition EMBEDDING_MODEL_NAME :: string where
  "EMBEDDING_MODEL_NAME = ''mxbai-embed-large:335m-v1-fp16''"

text \<open>
  The three \<^verbatim>\<open>except\<close> clauses of \<^verbatim>\<open>get_embedding\<close>, tried in the order written.
  The second and the third print \<^verbatim>\<open>response.text\<close>; \<open>response_text\<close> is \<open>None\<close> when
  \<^verbatim>\<open>response\<close> was never assigned.
\<close>

definition get_embedding_except ::
  "string option \<Rightarrow> exn \<Rightarrow> 'c world \<Rightarrow> (exn + json) \<times> 'c world" where
  "get_embedding_except response_text e w =
     (if isinstance e RequestException then
        (Inr JNull, emit (Print (EmbeddingRequestError e)) w)
      else if isinstance e KeyError then
        (case response_text of
           None \<Rightarrow> (Inl unbound_local_error, w)
         | Some t \<Rightarrow> (Inr JNull, emit (Print (EmbeddingKeyNotFound t)) w))
      else if isinstance e JSONDecodeError then
        (case response_text of
           None \<Rightarrow> (Inl unbound_local_error, w)
         | Some t \<Rightarrow> (Inr JNull, emit (Print (EmbeddingDecodeError t)) w))
      else (Inl e, w))"

definition get_embedding ::
  "'c env \<Rightarrow> string \<Rightarrow> string \<Rightarrow> 'c world \<Rightarrow> (exn + json) \<times> 'c world" where
  "get_embedding env text_in model_name w =
     (let url = OLLAMA_BASE_URL @ ''/api/embeddings'';
          payload = JObj [(''model'', JStr model_name), (''prompt'', JStr text_in)];
          w1 = emit (HttpPost url payload) w
      in case post env url payload of
           PostRaises e \<Rightarrow> get_embedding_except None e w1
         | Response txt st r \<Rightarrow>
             (case st of
                Some e \<Rightarrow> get_embedding_except (Some txt) e w1
              | None \<Rightarrow>
                  (case r of
                     Inl e \<Rightarrow> get_embedding_except (Some txt) e w1
                   | Inr data \<Rightarrow>
                       (case subscript data ''embedding'' of
                          Inl e \<Rightarrow> get_embedding_except (Some txt) e w1
                        | Inr v \<Rightarrow> (Inr v, w1)))))"

definition transport_fallback :: string where
  "transport_fallback = ''Sorry, I encountered an error trying to respond.''"

definition malformed_fallback :: string where
  "malformed_fallback = ''Sorry, I received an unreadable response.''"

text \<open>The two \<^verbatim>\<open>except\<close> clauses of \<^verbatim>\<open>get_chat_response\<close>, tried in the order written.\<close>

definition get_chat_response_except ::
  "string option \<Rightarrow> exn \<Rightarrow> 'c world \<Rightarrow> (exn + string) \<times> 'c world" where
  "get_chat_response_except response_text e w =
     (if isinstance e RequestException then
        (Inr transport_fallback, emit (Print (ChatRequestError e)) w)
      else if isinstance e JSONDecodeError then
        (case response_text of
           None \<Rightarrow> (Inl unbound_local_error, w)
         | Some t \<Rightarrow> (Inr malformed_fallback, emit (Print (ChatDecodeError t)) w))
      else (Inl e, w))"

definition get_chat_response ::
  "'c env \<Rightarrow> string \<Rightarrow> string \<Rightarrow> 'c world \<Rightarrow> (exn + string) \<times> 'c world" where
  "get_chat_response env prompt_text model_name w =
     (let url = OLLAMA_BASE_URL @ ''/api/generate'';
          payload = JObj [(''model'', JStr model_name), (''prompt'', JStr prompt_text),
                          (''stream'', JBool False)];
          w1 = emit (HttpPost url payload) w
      in case post env url payload of
           PostRaises e \<Rightarrow> get_chat_response_except None e w1
         | Response txt st r \<Rightarrow>
             (case st of
                Some e \<Rightarrow> get_chat_response_except (Some txt) e w1
              | None \<Rightarrow>
                  (case r of
                     Inl e \<Rightarrow> get_chat_response_except (Some txt) e w1
                   | Inr response_data \<Rightarrow>
                       (case get response_data ''response'' (JStr []) of
                          Inl e \<Rightarrow> get_chat_response_except (Some txt) e w1
                        | Inr v \<Rightarrow>
                            (case strip v of
                               Inl e \<Rightarrow> get_chat_response_except (Some txt) e w1
                             | Inr s \<Rightarrow> (Inr s, w1))))))"

section \<open>memory\_manager.py\<close>

text \<open>
  Iterating over a text file yields its lines, each with its \<^verbatim>\<open>\n\<close>; a last line
  without one is yielded as it is.
\<close>

fun lines_from :: "string \<Rightarrow> string \<Rightarrow> string list" where
  "lines_from cur [] = (if cur = [] then [] else [cur])"
| "lines_from cur (c # cs) =
     (if c = CHR 0x0A then (cur @ [c]) # lines_from [] cs else lines_from (cur @ [c]) cs)"

definition file_lines :: "string \<Rightarrow> string list" where
  "file_lines s = lines_from [] s"

definition turn_data :: "string \<Rightarrow> string \<Rightarrow> string \<Rightarrow> json" where
  "turn_data turn_id user_message bot_message =
     JObj [(''id'', JStr turn_id), (''user'', JStr user_message), (''bot'', JStr bot_message)]"

text \<open>
  \<^verbatim>\<open>with open(HISTORY_FILE_PATH, "a") as f: f.write(json.dumps(turn_data) + "\n")\<close>.
  Opening for appending creates the file when there is none.
\<close>

definition file_text :: "string option \<Rightarrow> string" where
  "file_text f = (case f of None \<Rightarrow> [] | Some s \<Rightarrow> s)"

definition append_history :: "'c env \<Rightarrow> json \<Rightarrow> 'c world \<Rightarrow> exn option \<times> 'c world" where
  "append_history env td w =
     (let w1 = emit OpenAppend w
      in case open_append_raises env of
           Some e \<Rightarrow> (Some e, w1)
         | None \<Rightarrow>
             (let old = file_text (history_file w1);
                  line = dumps env td @ ''\<newline>'';
                  w2 = emit (FileWrite line) (w1\<lparr>history_file := Some old\<rparr>)
              in case write_raises env of
                   Some e \<Rightarrow> (Some e, w2)
                 | None \<Rightarrow> (None, w2\<lparr>history_file := Some (old @ line)\<rparr>)))"

text \<open>Step 1 of \<^verbatim>\<open>save_conversation_turn\<close>: the append, under \<^verbatim>\<open>except IOError\<close>.\<close>

definition save_to_history :: "'c env \<Rightarrow> json \<Rightarrow> 'c world \<Rightarrow> exn option \<times> 'c world" where
  "save_to_history env td w =
     (case append_history env td w of
        (None, w1) \<Rightarrow> (None, w1)
      | (Some e, w1) \<Rightarrow>
          (if isinstance e IOError then (None, emit (Print (HistorySaveError e)) w1)
           else (Some e, w1)))"

text \<open>The text that is embedded for a turn: the f-string \<^verbatim>\<open>text_to_embed\<close>.\<close>

definition text_to_embed :: "string \<Rightarrow> string \<Rightarrow> string" where
  "text_to_embed user_message bot_message =
     ''User: '' @ user_message @ ''\<newline>Bot: '' @ bot_message"

text \<open>Step 2 of \<^verbatim>\<open>save_conversation_turn\<close>: embed the turn and add it to the collection.\<close>

definition add_to_vector_store ::
  "'c env \<Rightarrow> 'c \<Rightarrow> string \<Rightarrow> string \<Rightarrow> string \<Rightarrow> 'c world \<Rightarrow> (exn + unit) \<times> 'c world" where
  "add_to_vector_store env c user_message bot_message turn_id w =
     (case get_embedding env (text_to_embed user_message bot_message) EMBEDDING_MODEL_NAME w of
        (Inl e, w1) \<Rightarrow> (Inl e, w1)
      | (Inr embedding, w1) \<Rightarrow>
          (if truthy embedding then
             (let args = \<lparr>ids = [turn_id], embeddings = [embedding],
                          documents = [dumps env (turn_data turn_id user_message bot_message)],
                          metadatas = [[(''source'', ''conversation_history''),
                                        (''turn_id'', turn_id)]]\<rparr>;
                  w2 = emit (CollectionAdd args) w1
              in case add env c args of
                   (None, c') \<Rightarrow> (Inr (), w2\<lparr>collection := Some c'\<rparr>)
                 | (Some e, c') \<Rightarrow>
                     (if isinstance e Exception then
                        (Inr (), emit (Print (ChromaAddError turn_id e))
                                   (w2\<lparr>collection := Some c'\<rparr>))
                      else (Inl e, w2\<lparr>collection := Some c'\<rparr>)))
           else (Inr (), emit (Print (NoEmbeddingForTurn turn_id)) w1)))"

definition save_conversation_turn ::
  "'c env \<Rightarrow> string \<Rightarrow> string \<Rightarrow> string \<Rightarrow> 'c world \<Rightarrow> (exn + unit) \<times> 'c world" where
  "save_conversation_turn env user_message bot_message turn_id w =
     (case collection w of
        None \<Rightarrow> (Inr (), emit (Print SaveNotInitialized) w)
      | Some c \<Rightarrow>
          (case save_to_history env (turn_data turn_id user_message bot_message) w of
             (Some e, w1) \<Rightarrow> (Inl e, w1)
           | (None, w1) \<Rightarrow> add_to_vector_store env c user_message bot_message turn_id w1))"

text \<open>The line \<^verbatim>\<open>save_conversation_turn\<close> writes for a turn \<open>(user, bot, id)\<close>.\<close>

definition history_line :: "'c env \<Rightarrow> string \<times> string \<times> string \<Rightarrow> string" where
  "history_line env t = (case t of (u, b, i) \<Rightarrow> dumps env (turn_data i u b) @ ''\<newline>'')"

text \<open>
  The loop of \<^verbatim>\<open>_test_memory_manager\<close> that saves the turns of a list one after the
  other. An exception that leaves \<^verbatim>\<open>save_conversation_turn\<close> leaves the loop.
\<close>

fun save_all :: "'c env \<Rightarrow> (string \<times> string \<times> string) list \<Rightarrow> 'c world \<Rightarrow> (exn + unit) \<times> 'c world" where
  "save_all env [] w = (Inr (), w)"
| "save_all env ((user_message, bot_message, turn_id) # turns) w =
     (case save_conversation_turn env user_message bot_message turn_id w of
        (Inl e, w1) \<Rightarrow> (Inl e, w1)
      | (Inr u, w1) \<Rightarrow> save_all env turns w1)"

text \<open>
  What the iteration over the open file gives: the lines it yields and, when reading
  fails, the exception that ends it.
\<close>

definition lines_read :: "'c env \<Rightarrow> string \<Rightarrow> string list \<times> exn option" where
  "lines_read env content =
     (case read_raises env of
        None \<Rightarrow> (file_lines content, None)
      | Some (k, e) \<Rightarrow> (take k (file_lines content), Some e))"

text \<open>
  The loop of \<^verbatim>\<open>load_raw_history\<close>: \<open>i\<close> is the index \<^verbatim>\<open>enumerate\<close> gives the
  line, \<open>history\<close> the list built so far, \<open>stop\<close> the exception that ends the
  iteration. Only \<^verbatim>\<open>json.JSONDecodeError\<close> is caught inside the loop.
\<close>

fun load_lines ::
  "'c env \<Rightarrow> nat \<Rightarrow> string list \<Rightarrow> exn option \<Rightarrow> json list \<Rightarrow> 'c world
     \<Rightarrow> (exn + json list) \<times> 'c world" where
  "load_lines env i [] stop history w =
     (case stop of None \<Rightarrow> (Inr history, w) | Some e \<Rightarrow> (Inl e, w))"
| "load_lines env i (line # rest) stop history w =
     (case loads env line of
        Inr v \<Rightarrow> load_lines env (Suc i) rest stop (history @ [v]) w
      | Inl e \<Rightarrow>
          (if isinstance e JSONDecodeError then
             load_lines env (Suc i) rest stop history
               (emit (Print (SkippingMalformedLine (i + 1))) w)
           else (Inl e, w)))"

text \<open>The \<^verbatim>\<open>except IOError\<close> clause of \<^verbatim>\<open>load_raw_history\<close>.\<close>

definition load_except :: "exn \<Rightarrow> 'c world \<Rightarrow> (exn + json list) \<times> 'c world" where
  "load_except e w =
     (if isinstance e IOError then (Inr [], emit (Print (HistoryLoadError e)) w)
      else (Inl e, w))"

definition load_raw_history :: "'c env \<Rightarrow> 'c world \<Rightarrow> (exn + json list) \<times> 'c world" where
  "load_raw_history env w =
     (let w1 = emit PathExists w
      in case history_file w1 of
           None \<Rightarrow> (Inr [], w1)
         | Some content \<Rightarrow>
             (let w2 = emit OpenRead w1
              in case open_read_raises env of
                   Some e \<Rightarrow> load_except e w2
                 | None \<Rightarrow>
                     (case lines_read env content of
                        (ls, stop) \<Rightarrow>
                          (case load_lines env 0 ls stop [] w2 of
                             (Inr history, w3) \<Rightarrow> (Inr history, w3)
                           | (Inl e, w3) \<Rightarrow> load_except e w3))))"

text \<open>
  The loop over the documents the query returned. Only \<^verbatim>\<open>json.JSONDecodeError\<close> is
  caught inside the loop.
\<close>

fun decode_documents ::
  "'c env \<Rightarrow> string list \<Rightarrow> json list \<Rightarrow> 'c world \<Rightarrow> (exn + json list) \<times> 'c world" where
  "decode_documents env [] retrieved_docs w = (Inr retrieved_docs, w)"
| "decode_documents env (doc_json_str # rest) retrieved_docs w =
     (case loads env doc_json_str of
        Inr v \<Rightarrow> decode_documents env rest (retrieved_docs @ [v]) w
      | Inl e \<Rightarrow>
          (if isinstance e JSONDecodeError then
             decode_documents env rest retrieved_docs
               (emit (Print (DocumentDecodeError doc_json_str)) w)
           else (Inl e, w)))"

text \<open>The \<^verbatim>\<open>except Exception\<close> clause around the query.\<close>

definition query_except :: "exn \<Rightarrow> 'c world \<Rightarrow> (exn + json list) \<times> 'c world" where
  "query_except e w =
     (if isinstance e Exception then (Inr [], emit (Print (QueryError e)) w) else (Inl e, w))"

text \<open>The \<^verbatim>\<open>try\<close> block of \<^verbatim>\<open>retrieve_relevant_history\<close>.\<close>

definition query_collection ::
  "'c env \<Rightarrow> 'c \<Rightarrow> json \<Rightarrow> int \<Rightarrow> 'c world \<Rightarrow> (exn + json list) \<times> 'c world" where
  "query_collection env c query_embedding actual_n_results w =
     (let w1 = emit (CollectionQuery query_embedding actual_n_results) w
      in case query env c query_embedding actual_n_results of
           Inl e \<Rightarrow> query_except e w1
         | Inr results_documents \<Rightarrow>
             (case index0 (case results_documents of None \<Rightarrow> [[]] | Some d \<Rightarrow> d) of
                Inl e \<Rightarrow> query_except e w1
              | Inr retrieved_docs_json \<Rightarrow>
                  (case decode_documents env retrieved_docs_json [] w1 of
                     (Inr retrieved_docs, w2) \<Rightarrow> (Inr retrieved_docs, w2)
                   | (Inl e, w2) \<Rightarrow> query_except e w2)))"

definition retrieve_relevant_history ::
  "'c env \<Rightarrow> string \<Rightarrow> int \<Rightarrow> 'c world \<Rightarrow> (exn + json list) \<times> 'c world" where
  "retrieve_relevant_history env query_text n_results w =
     (case collection w of
        None \<Rightarrow> (Inr [], emit (Print RetrieveNotInitialized) w)
      | Some c \<Rightarrow>
          (let w1 = emit CollectionCount w
           in case count env c of
                Inl e \<Rightarrow>
                  (if isinstance e Exception then (Inr [], emit (Print (CountError e)) w1)
                   else (Inl e, w1))
              | Inr current_collection_count \<Rightarrow>
                  (if current_collection_count = 0 then (Inr [], w1)
                   else
                     (let actual_n_results = min n_results (int current_collection_count)
                      in if actual_n_results \<le> 0 then (Inr [], w1)
                         else
                           (case get_embedding env query_text EMBEDDING_MODEL_NAME w1 of
                              (Inl e, w2) \<Rightarrow> (Inl e, w2)
                            | (Inr query_embedding, w2) \<Rightarrow>
                                (if \<not> truthy query_embedding then
                                   (Inr [], emit (Print NoQueryEmbedding) w2)
                                 else query_collection env c query_embedding
                                        actual_n_results w2))))))"

section \<open>chat.py\<close>

text \<open>
  A value interpolated into an f-string: a string as it is, anything else through
  \<^verbatim>\<open>str()\<close>, which is the parameter \<open>str_of\<close>.
\<close>

definition interpolate :: "(json \<Rightarrow> string) \<Rightarrow> json \<Rightarrow> string" where
  "interpolate str_of v = (case v of JStr s \<Rightarrow> s | _ \<Rightarrow> str_of v)"

definition history_header :: string where
  "history_header = ''Relevant past conversation snippets (most relevant first):\<newline>---\<newline>''"

text \<open>The loop of \<^verbatim>\<open>format_retrieved_history_for_prompt\<close>, \<open>history_str\<close> growing.\<close>

fun format_docs :: "(json \<Rightarrow> string) \<Rightarrow> json list \<Rightarrow> string \<Rightarrow> exn + string" where
  "format_docs str_of [] history_str = Inr history_str"
| "format_docs str_of (doc # docs) history_str =
     (case get doc ''user'' (JStr ''N/A'') of
        Inl e \<Rightarrow> Inl e
      | Inr u \<Rightarrow>
          (case get doc ''bot'' (JStr ''N/A'') of
             Inl e \<Rightarrow> Inl e
           | Inr b \<Rightarrow>
               format_docs str_of docs
                 (history_str @ ''User: '' @ interpolate str_of u @ ''\<newline>Bot: ''
                    @ interpolate str_of b @ ''\<newline>---\<newline>'')))"

definition format_retrieved_history_for_prompt ::
  "(json \<Rightarrow> string) \<Rightarrow> json list \<Rightarrow> exn + string" where
  "format_retrieved_history_for_prompt str_of retrieved_docs =
     (if retrieved_docs = [] then Inr []
      else format_docs str_of retrieved_docs history_header)"

section \<open>The vector index\<close>

text \<open>
  Modelled from the spec: the vector index is the ChromaDB collection, a library that is
  not under \<^verbatim>\<open>src/\<close>. Section 4.3 of the specification gives its contract: \<open>count\<close> is
  the current number of records; \<open>query\<close> returns the \<open>k\<close> nearest documents by the
  similarity metric of the index, most similar first, and all of them when the index
  holds fewer than \<open>k\<close>; \<open>add\<close> fails when an id is already in the index. The metric
  is the parameter \<open>distance\<close>.
\<close>

record index_record =
  record_id :: string
  record_embedding :: json
  record_document :: string
  record_metadata :: "(string \<times> string) list"

definition index_count :: "index_record list \<Rightarrow> exn + nat" where
  "index_count c = Inr (length c)"

definition index_query ::
  "(json \<Rightarrow> json \<Rightarrow> rat) \<Rightarrow> index_record list \<Rightarrow> json \<Rightarrow> int
     \<Rightarrow> exn + string list list option" where
  "index_query distance c query_embedding k =
     Inr (Some [map record_document
                  (take (nat k)
                     (sort_key (\<lambda>r. distance query_embedding (record_embedding r)) c))])"

definition records_of :: "add_args \<Rightarrow> index_record list" where
  "records_of args =
     map (\<lambda>(i, e, d, m). \<lparr>record_id = i, record_embedding = e, record_document = d,
                           record_metadata = m\<rparr>)
       (zip (ids args) (zip (embeddings args) (zip (documents args) (metadatas args))))"

definition index_add :: "index_record list \<Rightarrow> add_args \<Rightarrow> exn option \<times> index_record list" where
  "index_add c args =
     (if set (ids args) \<inter> set (map record_id c) = {} then (None, c @ records_of args)
      else (Some value_error, c))"

section \<open>Notions used in the statements\<close>

text \<open>The number of HTTP requests in a trace: how often the Ollama client was called.\<close>

fun is_http_post :: "event \<Rightarrow> bool" where
  "is_http_post (HttpPost url payload) = True"
| "is_http_post ev = False"

definition http_calls :: "event list \<Rightarrow> nat" where
  "http_calls tr = length (filter is_http_post tr)"

text \<open>The number of calls of \<^verbatim>\<open>collection.add\<close> in a trace.\<close>

fun is_collection_add :: "event \<Rightarrow> bool" where
  "is_collection_add (CollectionAdd args) = True"
| "is_collection_add ev = False"

definition add_calls :: "event list \<Rightarrow> nat" where
  "add_calls tr = length (filter is_collection_add tr)"

text \<open>The value of a text that \<^verbatim>\<open>json.loads\<close> accepts.\<close>

definition parsed :: "'c env \<Rightarrow> string \<Rightarrow> json option" where
  "parsed env s = (case loads env s of Inr v \<Rightarrow> Some v | Inl e \<Rightarrow> None)"

text \<open>
  On this text \<^verbatim>\<open>json.loads\<close> raises nothing but \<^verbatim>\<open>json.JSONDecodeError\<close>: it accepts
  the text, or rejects it with that exception.
\<close>

definition decodes_or_rejects :: "'c env \<Rightarrow> string \<Rightarrow> bool" where
  "decodes_or_rejects env s =
     (case loads env s of Inr v \<Rightarrow> True | Inl e \<Rightarrow> isinstance e JSONDecodeError)"

section \<open>An example environment\<close>

text \<open>
  A small environment to run the program in: Ollama is unreachable, the files can be
  opened, read and written, the collection is the index of the specification with all
  distances equal, and the JSON codec knows one turn, \<^verbatim>\<open>null\<close>, and that an integer of
  more than 4300 digits is refused with \<^verbatim>\<open>ValueError\<close>.
\<close>

definition example_line :: string where
  \<open>example_line = ''{"id": "t1", "user": "hi", "bot": "hello"}''\<close>

definition example_dumps :: "json \<Rightarrow> string" where
  "example_dumps v = (if v = turn_data ''t1'' ''hi'' ''hello'' then example_line else ''null'')"

definition too_many_digits :: "string \<Rightarrow> bool" where
  "too_many_digits s = (list_all (\<lambda>c. c \<in> set ''0123456789'') s \<and> 4300 < length s)"

definition example_loads :: "string \<Rightarrow> exn + json" where
  "example_loads s =
     (if str_strip s = example_line then Inr (turn_data ''t1'' ''hi'' ''hello'')
      else if str_strip s = ''null'' then Inr JNull
      else if too_many_digits (str_strip s) then Inl value_error
      else Inl json_decode_error)"

definition example_env :: "(index_record list) env" where
  "example_env =
     \<lparr>post = (\<lambda>url payload. PostRaises request_exception),
      dumps = example_dumps,
      loads = example_loads,
      open_append_raises = None,
      write_raises = None,
      open_read_raises = None,
      read_raises = None,
      count = index_count,
      query = index_query (\<lambda>a b. 0),
      add = index_add\<rparr>"

definition example_world :: "(index_record list) world" where
  "example_world = \<lparr>history_file = None, collection = Some [], trace = []\<rparr>"

text \<open>Ollama answers with the given JSON value.\<close>

definition replying :: "string \<Rightarrow> json \<Rightarrow> (index_record list) env" where
  "replying txt v = example_env\<lparr>post := (\<lambda>url payload. Response txt None (Inr v))\<rparr>"

text \<open>Ollama answers with an error status, for which \<^verbatim>\<open>raise_for_status\<close> raises.\<close>

definition refusing :: "string \<Rightarrow> (index_record list) env" where
  "refusing txt =
     example_env\<lparr>post := (\<lambda>url payload.
        Response txt (Some request_exception) (Inl json_decode_error))\<rparr>"

text \<open>Ollama answers with a body that \<^verbatim>\<open>response.json()\<close> rejects with the given exception.\<close>

definition unreadable :: "string \<Rightarrow> exn \<Rightarrow> (index_record list) env" where
  "unreadable txt e = example_env\<lparr>post := (\<lambda>url payload. Response txt None (Inl e))\<rparr>"

text \<open>A reply of the embeddings endpoint that carries an embedding.\<close>

definition one_embedding :: json where
  "one_embedding = JObj [(''embedding'', JArr [JNum 1, JNum 2])]"

text \<open>Ollama answers with an embedding, and the history file cannot be opened for appending.\<close>

definition read_only :: "(index_record list) env" where
  "read_only = (replying ''{...}'' one_embedding)\<lparr>open_append_raises := Some os_error\<rparr>"


text \<open>Ollama is unreachable, and the history file cannot be opened for reading.\<close>

definition locked :: "(index_record list) env" where
  "locked = example_env\<lparr>open_read_raises := Some os_error\<rparr>"

text \<open>The history file holds bytes that are not UTF-8: reading it raises at once.\<close>

definition undecodable :: "(index_record list) env" where
  "undecodable = example_env\<lparr>read_raises := Some (0, unicode_decode_error)\<rparr>"

text \<open>An integer of 5000 digits: valid JSON that \<^verbatim>\<open>json.loads\<close> refuses with \<^verbatim>\<open>ValueError\<close>.\<close>

definition huge_number :: string where
  "huge_number = replicate 5000 (CHR ''1'')"

text \<open>A history file of three lines, the second of which is not JSON.\<close>

definition three_lines :: string where
  "three_lines = example_line @ ''\<newline>'' @ ''%%%'' @ ''\<newline>'' @ ''null'' @ ''\<newline>''"

text \<open>A history file of three lines, the second of which is the integer of 5000 digits.\<close>

definition huge_lines :: string where
  "huge_lines = example_line @ ''\<newline>'' @ huge_number @ ''\<newline>'' @ ''null'' @ ''\<newline>''"

text \<open>A record of the index with the given document.\<close>

definition stored :: "string \<Rightarrow> string \<Rightarrow> index_record" where
  "stored i d = \<lparr>record_id = i, record_embedding = JArr [JNum 1, JNum 2],
                 record_document = d, record_metadata = []\<rparr>"

text \<open>The records of a collection, the second of which holds a document that is not JSON.\<close>

definition stored_documents :: "index_record list" where
  "stored_documents = [stored ''t1'' example_line, stored ''t2'' ''%%%'', stored ''t3'' ''null'']"

text \<open>The same, the second document being the integer of 5000 digits.\<close>

definition stored_huge :: "index_record list" where
  "stored_huge = [stored ''t1'' example_line, stored ''t2'' huge_number, stored ''t3'' ''null'']"

section \<open>Auxiliary facts\<close>

subsection \<open>Traces and lists\<close>

lemma trace_emit [simp]: "trace (emit ev w) = trace w @ [ev]"
  by (simp add: emit_def)

lemma history_file_emit [simp]: "history_file (emit ev w) = history_file w"
  by (simp add: emit_def)

lemma collection_emit [simp]: "collection (emit ev w) = collection w"
  by (simp add: emit_def)

lemma add_calls_append [simp]: "add_calls (xs @ ys) = add_calls xs + add_calls ys"
  by (simp add: add_calls_def)

lemma http_calls_append [simp]: "http_calls (xs @ ys) = http_calls xs + http_calls ys"
  by (simp add: http_calls_def)

lemma add_calls_Cons [simp]: "add_calls (ev # evs) = (if is_collection_add ev then 1 else 0) + add_calls evs"
  by (simp add: add_calls_def)

lemma add_calls_Nil [simp]: "add_calls [] = 0"
  by (simp add: add_calls_def)

lemma http_calls_Cons [simp]: "http_calls (ev # evs) = (if is_http_post ev then 1 else 0) + http_calls evs"
  by (simp add: http_calls_def)

lemma http_calls_Nil [simp]: "http_calls [] = 0"
  by (simp add: http_calls_def)

lemma add_calls_Print [simp]: "add_calls (map Print rs) = 0"
  by (induction rs) simp_all

lemma http_calls_Print [simp]: "http_calls (map Print rs) = 0"
  by (induction rs) simp_all

lemma map_filter_append:
  "List.map_filter f (xs @ ys) = List.map_filter f xs @ List.map_filter f ys"
  by (simp add: List.map_filter_def)

lemma map_filter_all_Some:
  "\<forall>x \<in> set xs. f x = Some (g x) \<Longrightarrow> List.map_filter f xs = map g xs"
  by (induction xs) simp_all

subsection \<open>Lines of a file\<close>

lemma file_text_Some [simp]: "file_text (Some s) = s"
  by (simp add: file_text_def)

lemma file_text_None [simp]: "file_text None = []"
  by (simp add: file_text_def)

lemma lines_from_newline:
  "lines_from cur (xs @ CHR 0x0A # ys) = lines_from cur (xs @ [CHR 0x0A]) @ lines_from [] ys"
  by (induction xs arbitrary: cur) simp_all

lemma lines_from_one:
  "CHR 0x0A \<notin> set d \<Longrightarrow> lines_from cur (d @ [CHR 0x0A]) = [cur @ d @ [CHR 0x0A]]"
  by (induction d arbitrary: cur) auto

lemma file_lines_Nil: "file_lines [] = []"
  by (simp add: file_lines_def)

lemma file_lines_append_line:
  assumes "old = [] \<or> last old = CHR 0x0A" and "CHR 0x0A \<notin> set d"
  shows "file_lines (old @ d @ [CHR 0x0A]) = file_lines old @ [d @ [CHR 0x0A]]"
proof (cases "old = []")
  case True
  then show ?thesis using assms(2) by (simp add: file_lines_def lines_from_one)
next
  case False
  with assms(1) obtain xs where old: "old = xs @ [CHR 0x0A]"
    by (metis append_butlast_last_id)
  have "file_lines (old @ d @ [CHR 0x0A]) = lines_from [] (xs @ CHR 0x0A # (d @ [CHR 0x0A]))"
    by (simp add: file_lines_def old)
  also have "\<dots> = lines_from [] (xs @ [CHR 0x0A]) @ lines_from [] (d @ [CHR 0x0A])"
    by (rule lines_from_newline)
  finally show ?thesis using assms(2) by (simp add: file_lines_def old lines_from_one)
qed

lemma file_lines_append_lines:
  assumes "old = [] \<or> last old = CHR 0x0A"
    and "\<forall>l \<in> set ls. \<exists>d. l = d @ ''\<newline>'' \<and> CHR 0x0A \<notin> set d"
  shows "file_lines (old @ concat ls) = file_lines old @ ls"
  using assms
proof (induction ls arbitrary: old)
  case Nil
  then show ?case by simp
next
  case (Cons l ls)
  then obtain d where l: "l = d @ ''\<newline>''" and d: "CHR 0x0A \<notin> set d" by auto
  have one: "file_lines (old @ d @ ''\<newline>'') = file_lines old @ [d @ ''\<newline>'']"
    using Cons.prems(1) d by (rule file_lines_append_line)
  have "file_lines ((old @ l) @ concat ls) = file_lines (old @ l) @ ls"
    by (rule Cons.IH) (use Cons.prems(2) in \<open>simp_all add: l\<close>)
  then show ?case by (simp add: l one)
qed

subsection \<open>The lines of the context\<close>

lemma format_docs_turns:
  "format_docs str_of (map (\<lambda>(i, u, b). turn_data i u b) ts) acc =
     Inr (acc @ concat (map (\<lambda>(i, u, b). ''User: '' @ u @ ''\<newline>Bot: '' @ b @ ''\<newline>---\<newline>'') ts))"
  by (induction ts arbitrary: acc) (auto simp: turn_data_def interpolate_def)

subsection \<open>What \<open>get_embedding\<close> does to the world\<close>

lemma fst_get_embedding_world:
  "fst (get_embedding env t m w) = fst (get_embedding env t m w')"
  by (simp add: get_embedding_def get_embedding_except_def Let_def
      split: http_result.splits sum.splits option.splits)

lemma get_embedding_world:
  "\<exists>rs. snd (get_embedding env t m w) =
     w\<lparr>trace := trace w @
          HttpPost (OLLAMA_BASE_URL @ ''/api/embeddings'')
            (JObj [(''model'', JStr m), (''prompt'', JStr t)]) # map Print rs\<rparr>"
proof -
  have ex: "\<exists>rs. snd (get_embedding_except tx e w1) = w1\<lparr>trace := trace w1 @ map Print rs\<rparr>"
    for tx e and w1 :: "'a world"
  proof -
    have "snd (get_embedding_except tx e w1) = w1\<lparr>trace := trace w1 @ map Print []\<rparr>
        \<or> (\<exists>r. snd (get_embedding_except tx e w1) = w1\<lparr>trace := trace w1 @ map Print [r]\<rparr>)"
      by (auto simp: get_embedding_except_def emit_def split: option.splits)
    then show ?thesis by blast
  qed
  define w1 where "w1 = emit (HttpPost (OLLAMA_BASE_URL @ ''/api/embeddings'')
            (JObj [(''model'', JStr m), (''prompt'', JStr t)])) w"
  have "\<exists>rs. snd (get_embedding env t m w) = w1\<lparr>trace := trace w1 @ map Print rs\<rparr>"
  proof (cases "post env (OLLAMA_BASE_URL @ ''/api/embeddings'')
            (JObj [(''model'', JStr m), (''prompt'', JStr t)])")
    case (PostRaises e)
    then show ?thesis using ex[of None e w1] by (simp add: get_embedding_def Let_def w1_def)
  next
    case (Response tx st r)
    show ?thesis
    proof (cases st)
      case (Some e)
      then show ?thesis using Response ex[of "Some tx" e w1]
        by (simp add: get_embedding_def Let_def w1_def)
    next
      case None
      show ?thesis
      proof (cases r)
        case (Inl e)
        then show ?thesis using Response None ex[of "Some tx" e w1]
          by (simp add: get_embedding_def Let_def w1_def)
      next
        case (Inr data)
        show ?thesis
        proof (cases "subscript data ''embedding''")
          case (Inl e)
          then show ?thesis using Response None Inr ex[of "Some tx" e w1]
            by (simp add: get_embedding_def Let_def w1_def)
        next
          case (Inr v)
          then have "snd (get_embedding env t m w) = w1\<lparr>trace := trace w1 @ map Print []\<rparr>"
            using Response None \<open>r = Inr data\<close> by (simp add: get_embedding_def Let_def w1_def)
          then show ?thesis by blast
        qed
      qed
    qed
  qed
  then show ?thesis by (auto simp: w1_def emit_def)
qed

lemma get_embedding_history_file [simp]:
  "history_file (snd (get_embedding env t m w)) = history_file w"
  using get_embedding_world[of env t m w] by auto

lemma get_embedding_collection [simp]:
  "collection (snd (get_embedding env t m w)) = collection w"
  using get_embedding_world[of env t m w] by auto

lemma get_embedding_trace:
  "\<exists>evs. trace (snd (get_embedding env t m w)) =
       trace w @ HttpPost (OLLAMA_BASE_URL @ ''/api/embeddings'')
                   (JObj [(''model'', JStr m), (''prompt'', JStr t)]) # evs
     \<and> add_calls evs = 0 \<and> http_calls evs = 0"
  using get_embedding_world[of env t m w] by auto

subsection \<open>The two steps of \<open>save_conversation_turn\<close>\<close>

lemma save_to_history_ok:
  "open_append_raises env = None \<Longrightarrow> write_raises env = None \<Longrightarrow>
   save_to_history env td w =
     (None, w\<lparr>history_file := Some (file_text (history_file w) @ dumps env td @ ''\<newline>''),
              trace := trace w @ [OpenAppend, FileWrite (dumps env td @ ''\<newline>'')]\<rparr>)"
  by (simp add: save_to_history_def append_history_def Let_def emit_def)





lemma add_to_vector_store_falsy:
  assumes "fst (get_embedding env (text_to_embed u b) EMBEDDING_MODEL_NAME w) = Inr v"
    and "\<not> truthy v"
  shows "add_to_vector_store env c u b i w =
     (Inr (), emit (Print (NoEmbeddingForTurn i))
        (snd (get_embedding env (text_to_embed u b) EMBEDDING_MODEL_NAME w)))"
  using assms
  by (cases "get_embedding env (text_to_embed u b) EMBEDDING_MODEL_NAME w")
     (simp add: add_to_vector_store_def Let_def)

lemma add_to_vector_store_history_file [simp]:
  "history_file (snd (add_to_vector_store env c u b i w)) = history_file w"
proof -
  obtain r w1 where ge: "get_embedding env (text_to_embed u b) EMBEDDING_MODEL_NAME w = (r, w1)"
    by (cases "get_embedding env (text_to_embed u b) EMBEDDING_MODEL_NAME w")
  have "history_file w1 = history_file w"
    using get_embedding_history_file[of env _ _ w] ge by (metis snd_conv)
  then show ?thesis
    by (simp add: add_to_vector_store_def Let_def ge emit_def split: sum.splits prod.splits option.splits)
qed


lemma add_to_vector_store_collection:
  "collection w \<noteq> None \<Longrightarrow> collection (snd (add_to_vector_store env c u b i w)) \<noteq> None"
proof -
  assume a: "collection w \<noteq> None"
  obtain r w1 where ge: "get_embedding env (text_to_embed u b) EMBEDDING_MODEL_NAME w = (r, w1)"
    by (cases "get_embedding env (text_to_embed u b) EMBEDDING_MODEL_NAME w")
  have "collection w1 = collection w"
    using get_embedding_collection[of env "text_to_embed u b" EMBEDDING_MODEL_NAME w] ge by simp
  then show ?thesis using a
    by (simp add: add_to_vector_store_def Let_def ge split: sum.splits prod.splits option.splits)
qed

lemma save_continue:
  "collection w = Some c \<Longrightarrow> save_to_history env (turn_data i u b) w = (None, w1) \<Longrightarrow>
   save_conversation_turn env u b i w = add_to_vector_store env c u b i w1"
  by (simp add: save_conversation_turn_def)


lemma save_embedding_failure:
  assumes "collection w = Some c"
    and "open_append_raises env = None" and "write_raises env = None"
    and "fst (get_embedding env (text_to_embed u b) EMBEDDING_MODEL_NAME w) = Inr v"
    and "\<not> truthy v"
  shows "fst (save_conversation_turn env u b i w) = Inr ()"
    and "add_calls (trace (snd (save_conversation_turn env u b i w))) = add_calls (trace w)"
    and "collection (snd (save_conversation_turn env u b i w)) = Some c"
    and "Print (NoEmbeddingForTurn i) \<in> set (trace (snd (save_conversation_turn env u b i w)))"
    and "history_file (snd (save_conversation_turn env u b i w)) =
           Some (file_text (history_file w) @ dumps env (turn_data i u b) @ ''\<newline>'')"
proof -
  define w1 where "w1 = w\<lparr>history_file := Some (file_text (history_file w) @ dumps env (turn_data i u b) @ ''\<newline>''),
              trace := trace w @ [OpenAppend, FileWrite (dumps env (turn_data i u b) @ ''\<newline>'')]\<rparr>"
  have sh: "save_to_history env (turn_data i u b) w = (None, w1)"
    using assms(2,3) by (simp add: save_to_history_ok w1_def)
  have eq: "save_conversation_turn env u b i w = add_to_vector_store env c u b i w1"
    using assms(1) sh by (rule save_continue)
  have gv: "fst (get_embedding env (text_to_embed u b) EMBEDDING_MODEL_NAME w1) = Inr v"
    using assms(4) fst_get_embedding_world[of env _ _ w1 w] by simp
  have av: "add_to_vector_store env c u b i w1 =
     (Inr (), emit (Print (NoEmbeddingForTurn i))
        (snd (get_embedding env (text_to_embed u b) EMBEDDING_MODEL_NAME w1)))"
    using gv assms(5) by (rule add_to_vector_store_falsy)
  obtain evs where tr: "trace (snd (get_embedding env (text_to_embed u b) EMBEDDING_MODEL_NAME w1)) =
       trace w1 @ HttpPost (OLLAMA_BASE_URL @ ''/api/embeddings'')
                   (JObj [(''model'', JStr EMBEDDING_MODEL_NAME), (''prompt'', JStr (text_to_embed u b))]) # evs"
     and z: "add_calls evs = 0"
    using get_embedding_trace[of env "text_to_embed u b" EMBEDDING_MODEL_NAME w1] by auto
  have tw1: "trace w1 = trace w @ [OpenAppend, FileWrite (dumps env (turn_data i u b) @ ''\<newline>'')]"
    and cw1: "collection w1 = collection w"
    and hw1: "history_file w1 = Some (file_text (history_file w) @ dumps env (turn_data i u b) @ ''\<newline>'')"
    by (simp_all add: w1_def)
  show "fst (save_conversation_turn env u b i w) = Inr ()"
    by (simp add: eq av)
  show "add_calls (trace (snd (save_conversation_turn env u b i w))) = add_calls (trace w)"
    using z by (simp add: eq av tr tw1)
  show "collection (snd (save_conversation_turn env u b i w)) = Some c"
    using assms(1) by (simp add: eq av cw1)
  show "Print (NoEmbeddingForTurn i) \<in> set (trace (snd (save_conversation_turn env u b i w)))"
    by (simp add: eq av)
  show "history_file (snd (save_conversation_turn env u b i w)) =
           Some (file_text (history_file w) @ dumps env (turn_data i u b) @ ''\<newline>'')"
    by (simp add: eq av hw1)
qed

lemma save_appends:
  assumes "collection w = Some c" and "open_append_raises env = None" and "write_raises env = None"
  shows "history_file (snd (save_conversation_turn env u b i w)) =
           Some (file_text (history_file w) @ dumps env (turn_data i u b) @ ''\<newline>'')"
    and "collection (snd (save_conversation_turn env u b i w)) \<noteq> None"
proof -
  define w1 where "w1 = w\<lparr>history_file := Some (file_text (history_file w) @ dumps env (turn_data i u b) @ ''\<newline>''),
              trace := trace w @ [OpenAppend, FileWrite (dumps env (turn_data i u b) @ ''\<newline>'')]\<rparr>"
  have sh: "save_to_history env (turn_data i u b) w = (None, w1)"
    using assms(2,3) by (simp add: save_to_history_ok w1_def)
  have eq: "save_conversation_turn env u b i w = add_to_vector_store env c u b i w1"
    using assms(1) sh by (rule save_continue)
  have cw1: "collection w1 \<noteq> None"
    and hw1: "history_file w1 = Some (file_text (history_file w) @ dumps env (turn_data i u b) @ ''\<newline>'')"
    using assms(1) by (simp_all add: w1_def)
  show "history_file (snd (save_conversation_turn env u b i w)) =
           Some (file_text (history_file w) @ dumps env (turn_data i u b) @ ''\<newline>'')"
    by (simp add: eq hw1)
  show "collection (snd (save_conversation_turn env u b i w)) \<noteq> None"
    unfolding eq using cw1 by (rule add_to_vector_store_collection)
qed

lemma save_all_appends:
  assumes "open_append_raises env = None" and "write_raises env = None"
  shows "collection w \<noteq> None \<Longrightarrow> fst (save_all env ts w) = Inr () \<Longrightarrow>
         file_text (history_file (snd (save_all env ts w))) =
           file_text (history_file w) @ concat (map (history_line env) ts)"
proof (induction ts arbitrary: w)
  case Nil
  then show ?case by simp
next
  case (Cons t ts)
  obtain u b i where t: "t = (u, b, i)" by (cases t)
  obtain c where c: "collection w = Some c" using Cons.prems(1) by auto
  obtain r w1 where s: "save_conversation_turn env u b i w = (r, w1)"
    by (cases "save_conversation_turn env u b i w")
  have h1: "history_file w1 = Some (file_text (history_file w) @ dumps env (turn_data i u b) @ ''\<newline>'')"
    and c1: "collection w1 \<noteq> None"
    using save_appends[OF c assms, of u b i] s by simp_all
  from Cons.prems(2) obtain x where r: "r = Inr x" and rest: "fst (save_all env ts w1) = Inr ()"
    by (cases r) (simp_all add: t s)
  have "file_text (history_file (snd (save_all env ts w1))) =
           file_text (history_file w1) @ concat (map (history_line env) ts)"
    using c1 rest by (rule Cons.IH)
  moreover have "history_line env (u, b, i) = dumps env (turn_data i u b) @ ''\<newline>''"
    by (simp add: history_line_def)
  moreover have "file_text (history_file w1) = file_text (history_file w) @ dumps env (turn_data i u b) @ ''\<newline>''"
    by (simp add: h1 file_text_def)
  ultimately show ?case
    by (simp add: t s r)
qed

subsection \<open>The guards before the query\<close>

lemma retrieve_reaches_query:
  assumes "collection w = Some c" and "count env c = Inr m" and "0 < m" and "0 < n"
    and "fst (get_embedding env q EMBEDDING_MODEL_NAME w) = Inr qe" and "truthy qe"
  shows "retrieve_relevant_history env q n w =
           query_collection env c qe (min n (int m))
             (snd (get_embedding env q EMBEDDING_MODEL_NAME (emit CollectionCount w)))"
proof -
  obtain r w2 where ge: "get_embedding env q EMBEDDING_MODEL_NAME (emit CollectionCount w) = (r, w2)"
    by (cases "get_embedding env q EMBEDDING_MODEL_NAME (emit CollectionCount w)")
  have "fst (get_embedding env q EMBEDDING_MODEL_NAME (emit CollectionCount w)) = Inr qe"
    using assms(5) fst_get_embedding_world[of env q EMBEDDING_MODEL_NAME "emit CollectionCount w" w]
    by simp
  then have r: "r = Inr qe" using ge by simp
  have pos: "\<not> min n (int m) \<le> 0"
    using assms(3,4) by (simp add: min_def)
  show ?thesis
    using assms(1-3,6) pos by (simp add: retrieve_relevant_history_def Let_def ge r)
qed

subsection \<open>The reply of the chat client\<close>

lemma fallbacks_distinct:
  "transport_fallback \<noteq> malformed_fallback \<and> transport_fallback \<noteq> [] \<and> malformed_fallback \<noteq> []"
  by (simp add: transport_fallback_def malformed_fallback_def)

lemma get_chat_response_transport:
  "post env (OLLAMA_BASE_URL @ ''/api/generate'')
       (JObj [(''model'', JStr m), (''prompt'', JStr p), (''stream'', JBool False)])
     = PostRaises e
   \<or> post env (OLLAMA_BASE_URL @ ''/api/generate'')
       (JObj [(''model'', JStr m), (''prompt'', JStr p), (''stream'', JBool False)])
     = Response tx (Some e) r
   \<Longrightarrow> isinstance e RequestException
   \<Longrightarrow> fst (get_chat_response env p m w) = Inr transport_fallback"
  by (auto simp: get_chat_response_def get_chat_response_except_def Let_def)

lemma get_chat_response_plain_decode_error:
  "post env (OLLAMA_BASE_URL @ ''/api/generate'')
       (JObj [(''model'', JStr m), (''prompt'', JStr p), (''stream'', JBool False)])
     = Response tx None (Inl e)
   \<Longrightarrow> isinstance e JSONDecodeError
   \<Longrightarrow> \<not> isinstance e RequestException
   \<Longrightarrow> fst (get_chat_response env p m w) = Inr malformed_fallback"
  by (simp add: get_chat_response_def get_chat_response_except_def Let_def)

lemma get_chat_response_success:
  "post env (OLLAMA_BASE_URL @ ''/api/generate'')
       (JObj [(''model'', JStr m), (''prompt'', JStr p), (''stream'', JBool False)])
     = Response tx None (Inr (JObj kvs))
   \<Longrightarrow> map_of kvs ''response'' = Some (JStr s)
   \<Longrightarrow> fst (get_chat_response env p m w) = Inr (str_strip s)"
  by (simp add: get_chat_response_def Let_def)

subsection \<open>The loops\<close>

lemma parsed_Inr [simp]: "loads env s = Inr v \<Longrightarrow> parsed env s = Some v"
  by (simp add: parsed_def)

lemma parsed_Inl [simp]: "loads env s = Inl e \<Longrightarrow> parsed env s = None"
  by (simp add: parsed_def)

lemma decodes_or_rejects_Inl:
  "decodes_or_rejects env s \<Longrightarrow> loads env s = Inl e \<Longrightarrow> isinstance e JSONDecodeError"
  by (simp add: decodes_or_rejects_def)

lemma skipped_Cons:
  "filter (\<lambda>k. parsed env ((l # ls) ! (k - i)) = None) [i..<i + length (l # ls)] =
     (if parsed env l = None then [i] else []) @
     filter (\<lambda>k. parsed env (ls ! (k - Suc i)) = None) [Suc i..<Suc i + length ls]"
proof -
  have shift: "filter (\<lambda>k. parsed env ((l # ls) ! (k - i)) = None) [Suc i..<Suc i + length ls]
             = filter (\<lambda>k. parsed env (ls ! (k - Suc i)) = None) [Suc i..<Suc i + length ls]"
    by (rule filter_cong) (auto simp: nth_Cons')
  have "i < i + length (l # ls)" by simp
  then have "[i..<i + length (l # ls)] = i # [Suc i..<i + length (l # ls)]"
    by (rule upt_conv_Cons)
  then have split: "[i..<i + length (l # ls)] = i # [Suc i..<Suc i + length ls]"
    by simp
  show ?thesis
    unfolding split using shift by simp
qed

lemma load_lines_eq:
  "list_all (decodes_or_rejects env) ls \<Longrightarrow>
   load_lines env i ls None history w =
     (Inr (history @ List.map_filter (parsed env) ls),
      w\<lparr>trace := trace w @
           map (\<lambda>k. Print (SkippingMalformedLine (Suc k)))
             (filter (\<lambda>k. parsed env (ls ! (k - i)) = None) [i..<i + length ls])\<rparr>)"
proof (induction ls arbitrary: i history w)
  case Nil
  then show ?case by simp
next
  case (Cons l ls)
  then have rest: "list_all (decodes_or_rejects env) ls" and l: "decodes_or_rejects env l"
    by simp_all
  show ?case
  proof (cases "loads env l")
    case (Inr v)
    then show ?thesis
      unfolding skipped_Cons by (simp add: Cons.IH[OF rest])
  next
    case (Inl e)
    then have "isinstance e JSONDecodeError"
      using l by (rule decodes_or_rejects_Inl[rotated])
    then show ?thesis
      unfolding skipped_Cons using Inl by (simp add: Cons.IH[OF rest] emit_def)
  qed
qed

lemma load_raw_history_lines:
  "history_file w = Some content \<Longrightarrow> open_read_raises env = None \<Longrightarrow> read_raises env = None \<Longrightarrow>
   list_all (decodes_or_rejects env) (file_lines content) \<Longrightarrow>
   fst (load_raw_history env w) = Inr (List.map_filter (parsed env) (file_lines content))
   \<and> trace (snd (load_raw_history env w)) =
       trace w @ [PathExists, OpenRead] @
         map (\<lambda>k. Print (SkippingMalformedLine (Suc k)))
           (filter (\<lambda>k. parsed env (file_lines content ! k) = None)
              [0..<length (file_lines content)])"
  by (simp add: load_raw_history_def lines_read_def Let_def load_lines_eq)

lemma load_after_append:
  assumes "history_file w' = Some (old @ d @ ''\<newline>'')"
    and "old = [] \<or> last old = CHR 0x0A"
    and "CHR 0x0A \<notin> set d"
    and "loads env (d @ ''\<newline>'') = Inr td"
    and "open_read_raises env = None" and "read_raises env = None"
    and "list_all (decodes_or_rejects env) (file_lines old)"
  shows "fst (load_raw_history env w') = Inr (List.map_filter (parsed env) (file_lines old) @ [td])"
proof -
  have lines: "file_lines (old @ d @ ''\<newline>'') = file_lines old @ [d @ ''\<newline>'']"
    using assms(2,3) by (rule file_lines_append_line)
  have "decodes_or_rejects env (d @ ''\<newline>'')"
    using assms(4) by (simp add: decodes_or_rejects_def)
  then have ok: "list_all (decodes_or_rejects env) (file_lines (old @ d @ ''\<newline>''))"
    using assms(7) by (simp add: lines)
  show ?thesis
    using load_raw_history_lines[OF assms(1) assms(5) assms(6) ok] assms(4)
    by (simp add: lines map_filter_append)
qed

lemma decode_documents_eq:
  "list_all (decodes_or_rejects env) ds \<Longrightarrow>
   decode_documents env ds acc w =
     (Inr (acc @ List.map_filter (parsed env) ds),
      w\<lparr>trace := trace w @
           map (\<lambda>d. Print (DocumentDecodeError d)) (filter (\<lambda>d. parsed env d = None) ds)\<rparr>)"
proof (induction ds arbitrary: acc w)
  case Nil
  then show ?case by simp
next
  case (Cons d ds)
  then have rest: "list_all (decodes_or_rejects env) ds" and d: "decodes_or_rejects env d"
    by simp_all
  show ?case
  proof (cases "loads env d")
    case (Inr v)
    then show ?thesis by (simp add: Cons.IH[OF rest])
  next
    case (Inl e)
    then have "isinstance e JSONDecodeError"
      using d by (rule decodes_or_rejects_Inl[rotated])
    then show ?thesis using Inl by (simp add: Cons.IH[OF rest] emit_def)
  qed
qed

lemma query_collection_documents:
  assumes "query env c qe k = Inr (Some (docs # others))"
    and "list_all (decodes_or_rejects env) docs"
  shows "query_collection env c qe k w =
           (Inr (List.map_filter (parsed env) docs),
            w\<lparr>trace := trace w @ CollectionQuery qe k #
                 map (\<lambda>d. Print (DocumentDecodeError d))
                   (filter (\<lambda>d. parsed env d = None) docs)\<rparr>)"
  using assms(1) by (simp add: query_collection_def Let_def decode_documents_eq[OF assms(2)] emit_def)

subsection \<open>An embedding call that fails\<close>

lemma add_to_vector_store_raises:
  assumes "fst (get_embedding env (text_to_embed u b) EMBEDDING_MODEL_NAME w) = Inl e"
  shows "add_to_vector_store env c u b i w =
     (Inl e, snd (get_embedding env (text_to_embed u b) EMBEDDING_MODEL_NAME w))"
  using assms
  by (cases "get_embedding env (text_to_embed u b) EMBEDDING_MODEL_NAME w")
     (simp add: add_to_vector_store_def Let_def)

lemma save_embedding_raises:
  assumes "collection w = Some c"
    and "open_append_raises env = None" and "write_raises env = None"
    and "fst (get_embedding env (text_to_embed u b) EMBEDDING_MODEL_NAME w) = Inl e"
  shows "fst (save_conversation_turn env u b i w) = Inl e"
    and "add_calls (trace (snd (save_conversation_turn env u b i w))) = add_calls (trace w)"
    and "collection (snd (save_conversation_turn env u b i w)) = Some c"
proof -
  define w1 where "w1 = w\<lparr>history_file := Some (file_text (history_file w) @ dumps env (turn_data i u b) @ ''\<newline>''),
              trace := trace w @ [OpenAppend, FileWrite (dumps env (turn_data i u b) @ ''\<newline>'')]\<rparr>"
  have sh: "save_to_history env (turn_data i u b) w = (None, w1)"
    using assms(2,3) by (simp add: save_to_history_ok w1_def)
  have eq: "save_conversation_turn env u b i w = add_to_vector_store env c u b i w1"
    using assms(1) sh by (rule save_continue)
  have gv: "fst (get_embedding env (text_to_embed u b) EMBEDDING_MODEL_NAME w1) = Inl e"
    using assms(4) fst_get_embedding_world[of env _ _ w1 w] by simp
  have av: "add_to_vector_store env c u b i w1 =
     (Inl e, snd (get_embedding env (text_to_embed u b) EMBEDDING_MODEL_NAME w1))"
    using gv by (rule add_to_vector_store_raises)
  obtain evs where tr: "trace (snd (get_embedding env (text_to_embed u b) EMBEDDING_MODEL_NAME w1)) =
       trace w1 @ HttpPost (OLLAMA_BASE_URL @ ''/api/embeddings'')
                   (JObj [(''model'', JStr EMBEDDING_MODEL_NAME), (''prompt'', JStr (text_to_embed u b))]) # evs"
     and z: "add_calls evs = 0"
    using get_embedding_trace[of env "text_to_embed u b" EMBEDDING_MODEL_NAME w1] by auto
  have tw1: "trace w1 = trace w @ [OpenAppend, FileWrite (dumps env (turn_data i u b) @ ''\<newline>'')]"
    and cw1: "collection w1 = collection w"
    by (simp_all add: w1_def)
  show "fst (save_conversation_turn env u b i w) = Inl e"
    by (simp add: eq av)
  show "add_calls (trace (snd (save_conversation_turn env u b i w))) = add_calls (trace w)"
    using z by (simp add: eq av tr tw1)
  show "collection (snd (save_conversation_turn env u b i w)) = Some c"
    using assms(1) by (simp add: eq av cw1)
qed


lemma save_uninitialised:
  "collection w = None \<Longrightarrow>
   save_conversation_turn env u b i w = (Inr (), emit (Print SaveNotInitialized) w)"
  by (simp add: save_conversation_turn_def)





subsection \<open>A replay of saves\<close>

lemma load_after_save_all:
  assumes faults: "open_append_raises env = None" "write_raises env = None"
      "open_read_raises env = None" "read_raises env = None"
    and coll: "collection w \<noteq> None"
    and old: "file_text (history_file w) = [] \<or> last (file_text (history_file w)) = CHR 0x0A"
    and old_lines: "list_all (decodes_or_rejects env) (file_lines (file_text (history_file w)))"
    and codec: "\<forall>t \<in> set ts. CHR 0x0A \<notin> set (dumps env (case t of (u, b, i) \<Rightarrow> turn_data i u b))
                  \<and> loads env (history_line env t) = Inr (case t of (u, b, i) \<Rightarrow> turn_data i u b)"
    and ok: "fst (save_all env ts w) = Inr ()"
  shows "fst (load_raw_history env (snd (save_all env ts w))) =
           Inr (List.map_filter (parsed env) (file_lines (file_text (history_file w)))
                @ map (\<lambda>(u, b, i). turn_data i u b) ts)"
proof -
  define w' where "w' = snd (save_all env ts w)"
  have content_eq: "file_text (history_file w') =
           file_text (history_file w) @ concat (map (history_line env) ts)"
    unfolding w'_def using faults(1,2) coll ok by (rule save_all_appends)
  have shape: "\<forall>l \<in> set (map (history_line env) ts). \<exists>d. l = d @ ''\<newline>'' \<and> CHR 0x0A \<notin> set d"
    using codec by (auto simp: history_line_def)
  have lines: "file_lines (file_text (history_file w')) =
           file_lines (file_text (history_file w)) @ map (history_line env) ts"
    unfolding content_eq using old shape by (rule file_lines_append_lines)
  have new_ok: "list_all (decodes_or_rejects env) (map (history_line env) ts)"
    using codec by (auto simp: list_all_iff decodes_or_rejects_def)
  have parsed_new: "List.map_filter (parsed env) (map (history_line env) ts) =
           map (\<lambda>(u, b, i). turn_data i u b) ts"
  proof -
    have "List.map_filter (parsed env) (map (history_line env) ts) =
            List.map_filter (parsed env \<circ> history_line env) ts"
      by (simp add: List.map_filter_def filter_map comp_def)
    also have "\<dots> = map (\<lambda>(u, b, i). turn_data i u b) ts"
      by (rule map_filter_all_Some) (use codec in auto)
    finally show ?thesis .
  qed
  show ?thesis
  proof (cases "history_file w'")
    case None
    then have "file_text (history_file w) @ concat (map (history_line env) ts) = []"
      using content_eq by simp
    then have "file_text (history_file w) = []" and "concat (map (history_line env) ts) = []"
      by simp_all
    then have "ts = []" by (cases ts) (auto simp: history_line_def)
    then have rhs: "List.map_filter (parsed env) (file_lines (file_text (history_file w)))
                @ map (\<lambda>(u, b, i). turn_data i u b) ts = []"
      using \<open>file_text (history_file w) = []\<close> by (simp add: file_lines_def)
    have "fst (load_raw_history env w') = Inr []"
      using None by (simp add: load_raw_history_def Let_def)
    then show ?thesis
      unfolding w'_def[symmetric] rhs .
  next
    case (Some content)
    then have fl: "file_lines content =
           file_lines (file_text (history_file w)) @ map (history_line env) ts"
      using lines by simp
    have all_ok: "list_all (decodes_or_rejects env) (file_lines content)"
      using old_lines new_ok by (simp add: fl)
    have "fst (load_raw_history env w') =
           Inr (List.map_filter (parsed env) (file_lines (file_text (history_file w)))
                @ map (\<lambda>(u, b, i). turn_data i u b) ts)"
      using load_raw_history_lines[OF Some faults(3) faults(4) all_ok] parsed_new
      by (simp add: fl map_filter_append)
    then show ?thesis
      unfolding w'_def[symmetric] .
  qed
qed

lemma save_all_raises:
  "fst (save_conversation_turn env u b i w) = Inl e \<Longrightarrow>
   save_all env ((u, b, i) # ts) w = (Inl e, snd (save_conversation_turn env u b i w))"
  by (cases "save_conversation_turn env u b i w") simp

lemma save_all_returns:
  "fst (save_conversation_turn env u b i w) = Inr x \<Longrightarrow>
   save_all env [(u, b, i)] w = (Inr (), snd (save_conversation_turn env u b i w))"
  by (cases "save_conversation_turn env u b i w") simp

subsection \<open>The index\<close>

lemma index_query_length:
  "index_query distance c qe (int (length c)) =
     Inr (Some [map record_document (sort_key (\<lambda>r. distance qe (record_embedding r)) c)])"
  by (simp add: index_query_def)

lemma retrieve_from_index:
  assumes "collection w = Some c" and "count env = index_count" and "query env = index_query distance"
    and "0 < length c" and "int (length c) < n"
    and "fst (get_embedding env q EMBEDDING_MODEL_NAME w) = Inr qe" and "truthy qe"
    and "list_all (decodes_or_rejects env) (map record_document c)"
  shows "fst (retrieve_relevant_history env q n w) =
           Inr (List.map_filter (parsed env)
                  (map record_document (sort_key (\<lambda>r. distance qe (record_embedding r)) c)))"
proof -
  have n: "0 < n" and k: "min n (int (length c)) = int (length c)"
    using assms(4,5) by simp_all
  have cnt: "count env c = Inr (length c)"
    by (simp add: assms(2) index_count_def)
  have eq: "retrieve_relevant_history env q n w =
           query_collection env c qe (int (length c))
             (snd (get_embedding env q EMBEDDING_MODEL_NAME (emit CollectionCount w)))"
    using retrieve_reaches_query[OF assms(1) cnt assms(4) n assms(6,7)] k by simp
  have qr: "query env c qe (int (length c)) =
     Inr (Some (map record_document (sort_key (\<lambda>r. distance qe (record_embedding r)) c) # []))"
    by (simp add: assms(3) index_query_length)
  have ok: "list_all (decodes_or_rejects env)
              (map record_document (sort_key (\<lambda>r. distance qe (record_embedding r)) c))"
    using assms(8) by (simp add: list_all_iff)
  show ?thesis
    by (simp add: eq query_collection_documents[OF qr ok])
qed

subsection \<open>The example environment\<close>

lemma str_strip_core:
  assumes "s \<noteq> []" and "\<not> isspace (hd s)" and "\<not> isspace (last s)" and "list_all isspace t"
  shows "str_strip (s @ t) = s"
proof -
  obtain x xs where s: "s = x # xs" using assms(1) by (cases s) auto
  have fr: "dropWhile isspace (s @ t) = s @ t"
    using assms(2) by (simp add: s)
  obtain ys y where sy: "s = ys @ [y]"
    using assms(1) by (cases s rule: rev_cases) auto
  have bk: "dropWhile isspace (rev s) = rev s"
    using assms(3) by (simp add: sy)
  have "dropWhile isspace (rev t @ rev s) = dropWhile isspace (rev s)"
    by (rule dropWhile_append2) (use assms(4) in \<open>simp add: list_all_iff\<close>)
  then show ?thesis
    by (simp add: str_strip_def fr bk)
qed

lemma huge_number_facts:
  "huge_number \<noteq> []" "hd huge_number = CHR ''1''" "last huge_number = CHR ''1''"
  "length huge_number = 5000" "set huge_number = {CHR ''1''}"
  by (simp_all add: huge_number_def)

lemma str_strip_huge:
  "str_strip huge_number = huge_number" "str_strip (huge_number @ ''\<newline>'') = huge_number"
  using str_strip_core[of huge_number "[]"] str_strip_core[of huge_number "''\<newline>''"]
  by (simp_all add: huge_number_facts isspace_def)

lemma huge_number_distinct:
  "huge_number \<noteq> example_line" "huge_number \<noteq> ''null''"
proof -
  have "length example_line \<noteq> 5000" by (simp add: example_line_def)
  then show "huge_number \<noteq> example_line" using huge_number_facts(4) by metis
  have "length ''null'' \<noteq> 5000" by simp
  then show "huge_number \<noteq> ''null''" using huge_number_facts(4) by metis
qed

lemma too_many_digits_huge: "too_many_digits huge_number"
  by (simp add: too_many_digits_def list_all_iff huge_number_facts)

lemma example_loads_huge:
  "example_loads huge_number = Inl value_error"
  "example_loads (huge_number @ ''\<newline>'') = Inl value_error"
  by (simp_all add: example_loads_def str_strip_huge huge_number_distinct too_many_digits_huge)

lemma huge_number_no_newline: "CHR 0x0A \<notin> set huge_number"
  by (simp add: huge_number_facts)

lemma example_env_fields:
  "open_append_raises example_env = None"
  "write_raises example_env = None"
  "open_read_raises example_env = None"
  "read_raises example_env = None"
  "loads example_env = example_loads"
  "dumps example_env = example_dumps"
  "count example_env = index_count"
  "query example_env = index_query (\<lambda>a b. 0)"
  by (simp_all add: example_env_def)

lemma example_world_fields:
  "collection example_world = Some []"
  "history_file example_world = None"
  "trace example_world = []"
  by (simp_all add: example_world_def)

lemma replying_fields:
  "loads (replying t v) = example_loads"
  "dumps (replying t v) = example_dumps"
  "count (replying t v) = index_count"
  "query (replying t v) = index_query (\<lambda>a b. 0)"
  "open_append_raises (replying t v) = None"
  "write_raises (replying t v) = None"
  "open_read_raises (replying t v) = None"
  "read_raises (replying t v) = None"
  by (simp_all add: replying_def example_env_def)


lemma undecodable_fields:
  "open_append_raises undecodable = None"
  "write_raises undecodable = None"
  "open_read_raises undecodable = None"
  "read_raises undecodable = Some (0, unicode_decode_error)"
  "loads undecodable = example_loads"
  "dumps undecodable = example_dumps"
  by (simp_all add: undecodable_def example_env_def)

lemma example_line_no_newline: "CHR 0x0A \<notin> set example_line"
  by (simp add: example_line_def)

lemma example_dumps_turn: "example_dumps (turn_data ''t1'' ''hi'' ''hello'') = example_line"
  by (simp add: example_dumps_def)

lemma example_loads_line:
  "example_loads (example_line @ ''\<newline>'') = Inr (turn_data ''t1'' ''hi'' ''hello'')"
  by (simp add: example_loads_def example_line_def str_strip_def isspace_def)

lemma example_loads_garbage: "example_loads ''%%%\<newline>'' = Inl json_decode_error"
  by (simp add: example_loads_def example_line_def str_strip_def isspace_def too_many_digits_def)

lemma example_loads_null: "example_loads ''null\<newline>'' = Inr JNull"
  by (simp add: example_loads_def example_line_def str_strip_def isspace_def)

lemma example_loads_glued:
  "example_loads (''{'' @ example_line @ ''\<newline>'') = Inl json_decode_error"
  by (simp add: example_loads_def example_line_def str_strip_def isspace_def too_many_digits_def)

lemma example_loads_documents:
  "example_loads example_line = Inr (turn_data ''t1'' ''hi'' ''hello'')"
  "example_loads ''%%%'' = Inl json_decode_error"
  "example_loads ''null'' = Inr JNull"
  by (simp_all add: example_loads_def example_line_def str_strip_def isspace_def too_many_digits_def)

lemma exception_classes:
  "isinstance json_decode_error JSONDecodeError"
  "\<not> isinstance value_error JSONDecodeError"
  "\<not> isinstance value_error IOError"
  "isinstance value_error Exception"
  "\<not> isinstance unicode_decode_error IOError"
  "\<not> isinstance unicode_decode_error JSONDecodeError"
  "isinstance os_error IOError"
  by (simp_all add: isinstance_def json_decode_error_def value_error_def
      unicode_decode_error_def os_error_def)

lemma file_lines_three_lines:
  "file_lines three_lines = [example_line @ ''\<newline>'', ''%%%\<newline>'', ''null\<newline>'']"
  by (simp add: three_lines_def example_line_def file_lines_def)

lemma file_lines_huge_lines:
  "file_lines huge_lines = [example_line @ ''\<newline>'', huge_number @ ''\<newline>'', ''null\<newline>'']"
proof -
  have a: "file_lines (example_line @ ''\<newline>'') = [example_line @ ''\<newline>'']"
    using file_lines_append_line[of "[]" example_line] example_line_no_newline
    by (simp add: file_lines_Nil)
  have b: "file_lines ((example_line @ ''\<newline>'') @ huge_number @ ''\<newline>'') =
             file_lines (example_line @ ''\<newline>'') @ [huge_number @ ''\<newline>'']"
    by (rule file_lines_append_line) (simp_all add: huge_number_no_newline)
  have c: "file_lines (((example_line @ ''\<newline>'') @ huge_number @ ''\<newline>'') @ ''null'' @ ''\<newline>'') =
             file_lines ((example_line @ ''\<newline>'') @ huge_number @ ''\<newline>'') @ [''null'' @ ''\<newline>'']"
    by (rule file_lines_append_line) simp_all
  show ?thesis
    using a b c by (simp add: huge_lines_def)
qed

lemma example_no_embedding:
  "fst (get_embedding example_env q EMBEDDING_MODEL_NAME w) = Inr JNull"
  by (simp add: get_embedding_def get_embedding_except_def Let_def example_env_def
      isinstance_def request_exception_def)


lemma example_embedding:
  "fst (get_embedding (replying ''{...}'' one_embedding) q EMBEDDING_MODEL_NAME w)
     = Inr (JArr [JNum 1, JNum 2])"
  by (simp add: get_embedding_def Let_def replying_def one_embedding_def)

lemma array_reply_embedding:
  "fst (get_embedding (replying ''[]'' (JArr [])) q EMBEDDING_MODEL_NAME w) = Inl type_error"
  by (simp add: get_embedding_def get_embedding_except_def Let_def replying_def
      isinstance_def type_error_def)


lemma example_index_query:
  "index_query (\<lambda>a b. 0) c qe (int (length c)) = Inr (Some [map record_document c])"
  by (simp add: index_query_def sort_key_const)

lemma example_embedding_trace:
  "trace (snd (get_embedding (replying ''{...}'' one_embedding) t m w)) =
     trace w @ [HttpPost (OLLAMA_BASE_URL @ ''/api/embeddings'')
                  (JObj [(''model'', JStr m), (''prompt'', JStr t)])]"
  by (simp add: get_embedding_def Let_def replying_def example_env_def one_embedding_def)

lemma stored_documents_facts:
  "length stored_documents = 3"
  "map record_document stored_documents = [example_line, ''%%%'', ''null'']"
  "length stored_huge = 3"
  "map record_document stored_huge = [example_line, huge_number, ''null'']"
  by (simp_all add: stored_documents_def stored_huge_def stored_def)

lemma example_save_twice:
  "fst (save_all example_env [(''hi'', ''hello'', ''t1''), (''hi'', ''hello'', ''t1'')] example_world) = Inr ()"
  by (simp add: save_conversation_turn_def save_to_history_def append_history_def
      add_to_vector_store_def get_embedding_def get_embedding_except_def Let_def emit_def
      example_env_def example_world_def isinstance_def request_exception_def)

lemma load_huge_lines:
  "fst (load_raw_history example_env (example_world\<lparr>history_file := Some huge_lines\<rparr>))
     = Inl value_error"
  by (simp add: load_raw_history_def lines_read_def load_except_def Let_def file_lines_huge_lines
      example_env_fields example_loads_line example_loads_huge exception_classes)

lemma load_undecodable:
  "fst (load_raw_history undecodable (w\<lparr>history_file := Some content\<rparr>)) = Inl unicode_decode_error"
  by (simp add: load_raw_history_def lines_read_def load_except_def Let_def undecodable_fields
      exception_classes)

lemma replay_uninitialised:
  "fst (save_all example_env [(''hi'', ''hello'', ''t1'')] (example_world\<lparr>collection := None\<rparr>)) = Inr ()"
  "fst (load_raw_history example_env
          (snd (save_all example_env [(''hi'', ''hello'', ''t1'')]
                  (example_world\<lparr>collection := None\<rparr>)))) = Inr []"
  by (simp_all add: save_uninitialised load_raw_history_def Let_def example_world_def)

lemma save_onto_brace:
  "fst (save_conversation_turn example_env ''hi'' ''hello'' ''t1''
          (example_world\<lparr>history_file := Some ''{''\<rparr>)) = Inr ()"
  "history_file (snd (save_conversation_turn example_env ''hi'' ''hello'' ''t1''
          (example_world\<lparr>history_file := Some ''{''\<rparr>))) = Some (''{'' @ example_line @ ''\<newline>'')"
  using save_embedding_failure(1,5)
    [where w = "example_world\<lparr>history_file := Some ''{''\<rparr>" and c = "[]" and env = example_env
       and u = "''hi''" and b = "''hello''" and i = "''t1''" and v = JNull]
  by (simp_all add: example_world_fields example_env_fields example_no_embedding example_dumps_turn)

lemma load_glued:
  assumes "history_file w = Some (''{'' @ example_line @ ''\<newline>'')"
  shows "fst (load_raw_history example_env w) = Inr []"
proof -
  have fl: "file_lines (''{'' @ example_line @ ''\<newline>'') = [''{'' @ example_line @ ''\<newline>'']"
    using file_lines_append_line[of "[]" "''{'' @ example_line"] example_line_no_newline
    by (simp add: file_lines_Nil)
  have ok: "list_all (decodes_or_rejects example_env) (file_lines (''{'' @ example_line @ ''\<newline>''))"
    unfolding fl
    by (simp add: decodes_or_rejects_def example_env_fields example_loads_glued exception_classes
        del: append.simps)
  have "parsed example_env (''{'' @ example_line @ ''\<newline>'') = None"
    by (simp add: parsed_def example_env_fields example_loads_glued del: append.simps)
  then show ?thesis
    using load_raw_history_lines[OF assms _ _ ok] unfolding fl
    by (simp add: example_env_fields List.map_filter_simps del: append.simps)
qed

lemma replay_onto_brace:
  "fst (save_all example_env [(''hi'', ''hello'', ''t1'')]
          (example_world\<lparr>history_file := Some ''{''\<rparr>)) = Inr ()"
  "fst (load_raw_history example_env
          (snd (save_all example_env [(''hi'', ''hello'', ''t1'')]
                  (example_world\<lparr>history_file := Some ''{''\<rparr>)))) = Inr []"
  using save_all_returns[OF save_onto_brace(1)] load_glued[OF save_onto_brace(2)]
  by simp_all

lemma save_array_reply:
  "fst (save_conversation_turn (replying ''[]'' (JArr [])) ''hi'' ''hello'' ''t1'' example_world)
     = Inl type_error"
  "history_file (snd (save_conversation_turn (replying ''[]'' (JArr [])) ''hi'' ''hello'' ''t1''
          example_world)) = Some (example_line @ ''\<newline>'')"
  using save_embedding_raises(1)
    [where w = example_world and c = "[]" and env = "replying ''[]'' (JArr [])"
       and u = "''hi''" and b = "''hello''" and i = "''t1''" and e = type_error]
    save_appends(1)
    [where w = example_world and c = "[]" and env = "replying ''[]'' (JArr [])"
       and u = "''hi''" and b = "''hello''" and i = "''t1''"]
  by (simp_all add: example_world_fields replying_fields array_reply_embedding example_dumps_turn)

lemma load_one_line:
  assumes "history_file w = Some (example_line @ ''\<newline>'')"
    and "loads env = example_loads" and "open_read_raises env = None" and "read_raises env = None"
  shows "fst (load_raw_history env w) = Inr [turn_data ''t1'' ''hi'' ''hello'']"
  using load_after_append[of w "[]" example_line env "turn_data ''t1'' ''hi'' ''hello''"] assms
  by (simp add: example_line_no_newline example_loads_line file_lines_Nil List.map_filter_simps)

lemma replay_array_reply:
  "fst (save_all (replying ''[]'' (JArr []))
          [(''hi'', ''hello'', ''t1''), (''hi'', ''hello'', ''t1'')] example_world) = Inl type_error"
  "fst (load_raw_history (replying ''[]'' (JArr []))
          (snd (save_all (replying ''[]'' (JArr []))
                  [(''hi'', ''hello'', ''t1''), (''hi'', ''hello'', ''t1'')] example_world)))
     = Inr [turn_data ''t1'' ''hi'' ''hello'']"
  using save_all_raises[OF save_array_reply(1)]
    load_one_line[OF save_array_reply(2), of "replying ''[]'' (JArr [])"]
  by (simp_all add: replying_fields)

lemma save_read_only:
  "fst (save_conversation_turn read_only ''hi'' ''hello'' ''t1'' example_world) = Inr ()"
  "history_file (snd (save_conversation_turn read_only ''hi'' ''hello'' ''t1'' example_world)) = None"
  by (simp_all add: save_conversation_turn_def save_to_history_def append_history_def
      add_to_vector_store_def get_embedding_def Let_def emit_def read_only_def replying_def
      one_embedding_def example_env_def example_world_def isinstance_def os_error_def
      index_add_def records_of_def)

lemma replay_read_only:
  "fst (save_all read_only [(''hi'', ''hello'', ''t1'')] example_world) = Inr ()"
  "fst (load_raw_history read_only
          (snd (save_all read_only [(''hi'', ''hello'', ''t1'')] example_world))) = Inr []"
  using save_all_returns[OF save_read_only(1)] save_read_only(2)
  by (simp_all add: load_raw_history_def Let_def)

lemma load_locked: "fst (load_raw_history locked w) = Inr []"
  by (cases "history_file w")
    (simp_all add: load_raw_history_def load_except_def Let_def locked_def example_env_def
      isinstance_def os_error_def)





section \<open>The Ollama client\<close>

text \<open>
  C5. \<^verbatim>\<open>get_chat_response\<close> is to return one fallback string on a transport failure and
  a second, different one on a response that is not JSON. The first and the last part
  hold (lemmas \<open>get_chat_response_transport\<close>, \<open>get_chat_response_success\<close>,
  \<open>fallbacks_distinct\<close>). The second holds only for a decode error that is not a
  \<^verbatim>\<open>RequestException\<close> (lemma \<open>get_chat_response_plain_decode_error\<close>). The exception
  that \<^verbatim>\<open>response.json()\<close> raises in requests 2.27 and later is one, so the first
  \<^verbatim>\<open>except\<close> clause catches it: on a body that is not JSON the function returns the
  transport fallback, and the second clause is never reached.
\<close>

theorem get_chat_response_unreadable_body:
  "fst (get_chat_response (unreadable ''<html>'' requests_json_decode_error)
          ''Hello'' GENERATION_MODEL_NAME example_world) = Inr transport_fallback
   \<and> transport_fallback \<noteq> malformed_fallback"
  by (simp add: get_chat_response_def get_chat_response_except_def Let_def unreadable_def
      example_env_def isinstance_def requests_json_decode_error_def
      transport_fallback_def malformed_fallback_def)

text \<open>
  C6, as amended. \<^verbatim>\<open>get_embedding\<close> returns \<^verbatim>\<open>None\<close>, and raises nothing, when the
  request raises a \<^verbatim>\<open>RequestException\<close>, when \<^verbatim>\<open>response.json()\<close> raises a JSON decode
  error, and when the response is a JSON object without the key \<^verbatim>\<open>embedding\<close>; when the
  response is a JSON object with that key, it returns the value stored under it.
\<close>

theorem get_embedding_failure_value:
  "((post env (OLLAMA_BASE_URL @ ''/api/embeddings'')
         (JObj [(''model'', JStr m), (''prompt'', JStr t)]) = PostRaises e
       \<or> post env (OLLAMA_BASE_URL @ ''/api/embeddings'')
         (JObj [(''model'', JStr m), (''prompt'', JStr t)]) = Response tx (Some e) r)
      \<and> isinstance e RequestException
      \<longrightarrow> fst (get_embedding env t m w) = Inr JNull)
   \<and> (post env (OLLAMA_BASE_URL @ ''/api/embeddings'')
        (JObj [(''model'', JStr m), (''prompt'', JStr t)]) = Response tx None (Inl e)
      \<and> isinstance e JSONDecodeError
      \<longrightarrow> fst (get_embedding env t m w) = Inr JNull)
   \<and> (post env (OLLAMA_BASE_URL @ ''/api/embeddings'')
        (JObj [(''model'', JStr m), (''prompt'', JStr t)]) = Response tx None (Inr (JObj kvs))
      \<and> map_of kvs ''embedding'' = None
      \<longrightarrow> fst (get_embedding env t m w) = Inr JNull)
   \<and> (post env (OLLAMA_BASE_URL @ ''/api/embeddings'')
        (JObj [(''model'', JStr m), (''prompt'', JStr t)]) = Response tx None (Inr (JObj kvs))
      \<and> map_of kvs ''embedding'' = Some v
      \<longrightarrow> fst (get_embedding env t m w) = Inr v)"
  by (auto simp: get_embedding_def get_embedding_except_def Let_def isinstance_def key_error_def)

theorem get_embedding_failure_value_witness:
  "fst (get_embedding example_env ''hello'' EMBEDDING_MODEL_NAME example_world) = Inr JNull
   \<and> fst (get_embedding (refusing ''Internal Server Error'')
            ''hello'' EMBEDDING_MODEL_NAME example_world) = Inr JNull
   \<and> fst (get_embedding (unreadable ''<html>'' requests_json_decode_error)
            ''hello'' EMBEDDING_MODEL_NAME example_world) = Inr JNull
   \<and> fst (get_embedding (unreadable ''<html>'' json_decode_error)
            ''hello'' EMBEDDING_MODEL_NAME example_world) = Inr JNull
   \<and> fst (get_embedding (replying ''{}'' (JObj []))
            ''hello'' EMBEDDING_MODEL_NAME example_world) = Inr JNull
   \<and> fst (get_embedding (replying ''{...}'' (JObj [(''embedding'', JArr [JNum 1, JNum 2])]))
            ''hello'' EMBEDDING_MODEL_NAME example_world) = Inr (JArr [JNum 1, JNum 2])"
  using
    get_embedding_failure_value
      [where env = example_env and m = EMBEDDING_MODEL_NAME and t = "''hello''"
         and e = request_exception and w = example_world]
    get_embedding_failure_value
      [where env = "refusing ''Internal Server Error''" and m = EMBEDDING_MODEL_NAME
         and t = "''hello''" and e = request_exception and w = example_world
         and tx = "''Internal Server Error''" and r = "Inl json_decode_error"]
    get_embedding_failure_value
      [where env = "unreadable ''<html>'' requests_json_decode_error"
         and m = EMBEDDING_MODEL_NAME and t = "''hello''" and e = requests_json_decode_error
         and w = example_world and tx = "''<html>''"]
    get_embedding_failure_value
      [where env = "unreadable ''<html>'' json_decode_error" and m = EMBEDDING_MODEL_NAME
         and t = "''hello''" and e = json_decode_error and w = example_world
         and tx = "''<html>''"]
    get_embedding_failure_value
      [where env = "replying ''{}'' (JObj [])" and m = EMBEDDING_MODEL_NAME
         and t = "''hello''" and w = example_world and tx = "''{}''" and kvs = "[]"]
    get_embedding_failure_value
      [where env = "replying ''{...}'' (JObj [(''embedding'', JArr [JNum 1, JNum 2])])"
         and m = EMBEDDING_MODEL_NAME and t = "''hello''" and w = example_world
         and tx = "''{...}''" and kvs = "[(''embedding'', JArr [JNum 1, JNum 2])]"
         and v = "JArr [JNum 1, JNum 2]"]
  by (simp add: example_env_def unreadable_def replying_def refusing_def isinstance_def
      request_exception_def requests_json_decode_error_def json_decode_error_def)

text \<open>
  The claim as it was stated fails on a response that is valid JSON and not an object:
  it has no field \<^verbatim>\<open>embedding\<close>, the subscript raises \<^verbatim>\<open>TypeError\<close>, and none of the
  three clauses catches it.
\<close>

theorem get_embedding_array_reply:
  "fst (get_embedding (replying ''[]'' (JArr [])) ''hello'' EMBEDDING_MODEL_NAME example_world)
     = Inl type_error"
  by (simp add: get_embedding_def get_embedding_except_def Let_def replying_def example_env_def
      isinstance_def type_error_def)

text \<open>
  C9, as amended. When the reply of the backend is a JSON object without the key
  \<^verbatim>\<open>response\<close>, \<^verbatim>\<open>get_chat_response\<close> returns the empty string, which is neither of
  the two fallback strings.
\<close>

theorem get_chat_response_missing_field:
  "post env (OLLAMA_BASE_URL @ ''/api/generate'')
       (JObj [(''model'', JStr m), (''prompt'', JStr p), (''stream'', JBool False)])
     = Response tx None (Inr (JObj kvs))
   \<Longrightarrow> map_of kvs ''response'' = None
   \<Longrightarrow> fst (get_chat_response env p m w) = Inr []
       \<and> [] \<noteq> transport_fallback \<and> [] \<noteq> malformed_fallback"
  by (simp add: get_chat_response_def Let_def str_strip_def
      transport_fallback_def malformed_fallback_def)

theorem get_chat_response_missing_field_witness:
  "fst (get_chat_response (replying ''{...}'' (JObj [(''done'', JBool True)]))
          ''Hello'' GENERATION_MODEL_NAME example_world) = Inr []
   \<and> [] \<noteq> transport_fallback \<and> [] \<noteq> malformed_fallback"
  using get_chat_response_missing_field
    [where env = "replying ''{...}'' (JObj [(''done'', JBool True)])"
       and m = GENERATION_MODEL_NAME and p = "''Hello''" and tx = "''{...}''"
       and kvs = "[(''done'', JBool True)]" and w = example_world]
  by (simp add: replying_def)

text \<open>
  The claim as it was stated fails on a reply that is valid JSON and not an object:
  it has no field \<^verbatim>\<open>response\<close> and no method \<^verbatim>\<open>get\<close>, so \<^verbatim>\<open>AttributeError\<close>
  leaves the function.
\<close>

theorem get_chat_response_array_reply:
  "fst (get_chat_response (replying ''[]'' (JArr [])) ''Hello'' GENERATION_MODEL_NAME
          example_world) = Inl attribute_error"
  by (simp add: get_chat_response_def get_chat_response_except_def Let_def replying_def
      isinstance_def attribute_error_def)

section \<open>The memory manager\<close>




text \<open>
  C7, as amended. When the history file can be opened and read, and on each of its
  lines \<^verbatim>\<open>json.loads\<close> raises nothing but \<^verbatim>\<open>json.JSONDecodeError\<close>,
  \<^verbatim>\<open>load_raw_history\<close> returns the values of the lines that \<^verbatim>\<open>json.loads\<close> accepts, in
  the order of the file, and what it does is to ask whether the path exists, to open the
  file, and to print one message for each rejected line, with the number of the line.

  After a replay of saves, \<^verbatim>\<open>load_raw_history\<close> returns the values of the lines the
  file held before, followed by the saved turns in the order of the saves, whatever
  Ollama and the collection answered during the saves, provided that: the collection is
  initialised; the file is opened, written and read without an error; it was absent,
  empty or ended with a line break; on each of its earlier lines \<^verbatim>\<open>json.loads\<close> raises
  nothing but \<^verbatim>\<open>json.JSONDecodeError\<close>; \<^verbatim>\<open>json.dumps\<close> writes each turn without a line
  break, as a line that \<^verbatim>\<open>json.loads\<close> reads back; and every save of the replay
  returns.
\<close>

theorem load_raw_history_file_order:
  "(history_file w = Some content \<and> open_read_raises env = None \<and> read_raises env = None
      \<and> list_all (decodes_or_rejects env) (file_lines content) \<longrightarrow>
      fst (load_raw_history env w) = Inr (List.map_filter (parsed env) (file_lines content))
      \<and> trace (snd (load_raw_history env w)) =
          trace w @ [PathExists, OpenRead] @
            map (\<lambda>k. Print (SkippingMalformedLine (Suc k)))
              (filter (\<lambda>k. parsed env (file_lines content ! k) = None)
                 [0..<length (file_lines content)]))
   \<and> (collection w \<noteq> None
       \<and> open_append_raises env = None \<and> write_raises env = None
       \<and> open_read_raises env = None \<and> read_raises env = None
       \<and> (file_text (history_file w) = [] \<or> last (file_text (history_file w)) = CHR 0x0A)
       \<and> list_all (decodes_or_rejects env) (file_lines (file_text (history_file w)))
       \<and> (\<forall>t \<in> set ts.
             CHR 0x0A \<notin> set (dumps env (case t of (u, b, i) \<Rightarrow> turn_data i u b))
             \<and> loads env (history_line env t) = Inr (case t of (u, b, i) \<Rightarrow> turn_data i u b))
       \<and> fst (save_all env ts w) = Inr () \<longrightarrow>
      fst (load_raw_history env (snd (save_all env ts w))) =
        Inr (List.map_filter (parsed env) (file_lines (file_text (history_file w)))
             @ map (\<lambda>(u, b, i). turn_data i u b) ts))"
  using load_raw_history_lines[of w content env] load_after_save_all[of env w ts]
  by blast

theorem load_raw_history_file_order_witness:
  "fst (load_raw_history example_env (example_world\<lparr>history_file := Some three_lines\<rparr>))
     = Inr [turn_data ''t1'' ''hi'' ''hello'', JNull]
   \<and> trace (snd (load_raw_history example_env (example_world\<lparr>history_file := Some three_lines\<rparr>)))
       = [PathExists, OpenRead, Print (SkippingMalformedLine 2)]
   \<and> fst (load_raw_history example_env
            (snd (save_all example_env [(''hi'', ''hello'', ''t1''), (''hi'', ''hello'', ''t1'')]
                    example_world)))
       = Inr [turn_data ''t1'' ''hi'' ''hello'', turn_data ''t1'' ''hi'' ''hello'']"
proof -
  have line: "history_line example_env (''hi'', ''hello'', ''t1'') = example_line @ ''\<newline>''"
    by (simp add: history_line_def example_env_fields example_dumps_turn)
  have p: "parsed example_env (example_line @ ''\<newline>'') = Some (turn_data ''t1'' ''hi'' ''hello'')"
    "parsed example_env ''%%%\<newline>'' = None"
    "parsed example_env ''null\<newline>'' = Some JNull"
    by (simp_all add: parsed_def example_env_fields example_loads_line example_loads_garbage
        example_loads_null)
  have ok: "decodes_or_rejects example_env (example_line @ ''\<newline>'')"
    "decodes_or_rejects example_env ''%%%\<newline>''"
    "decodes_or_rejects example_env ''null\<newline>''"
    by (simp_all add: decodes_or_rejects_def example_env_fields
        example_loads_line example_loads_garbage example_loads_null exception_classes)
  have skipped: "filter (\<lambda>k. parsed example_env (file_lines three_lines ! k) = None)
                   [0..<length (file_lines three_lines)] = [1]"
    by (simp add: file_lines_three_lines p upt_rec)
  show ?thesis
    using
      load_raw_history_file_order
        [of "example_world\<lparr>history_file := Some three_lines\<rparr>" three_lines example_env]
      load_raw_history_file_order
        [of example_world _ example_env "[(''hi'', ''hello'', ''t1''), (''hi'', ''hello'', ''t1'')]"]
    by (simp add: example_env_fields example_world_fields line skipped ok p example_save_twice
        example_line_no_newline example_dumps_turn example_loads_line file_lines_three_lines
        file_lines_Nil List.map_filter_simps del: save_all.simps)
qed

text \<open>
  The claim as it was stated fails in each of these runs. A line with an integer of
  5000 digits, between two lines that can be read: \<^verbatim>\<open>json.loads\<close> raises
  \<^verbatim>\<open>ValueError\<close>, which the loop does not catch, and \<^verbatim>\<open>load_raw_history\<close> raises. A file
  that cannot be opened for reading: the result is the empty list. A file that cannot be
  decoded as UTF-8: the iteration raises \<^verbatim>\<open>UnicodeDecodeError\<close>. A replay with the
  collection not initialised: nothing is written. A replay onto a file that holds
  \<^verbatim>\<open>{\<close> with no line break at its end: the saved turn is glued to it and lost. A replay
  of two saves in which the embeddings endpoint answers \<^verbatim>\<open>[]\<close>: the first save raises
  \<^verbatim>\<open>TypeError\<close>, and only one of the two turns is in the file. A replay onto a file that
  cannot be opened for appending: nothing is saved.
\<close>

theorem load_raw_history_aborted:
  "fst (load_raw_history example_env (example_world\<lparr>history_file := Some huge_lines\<rparr>))
     = Inl value_error
   \<and> fst (load_raw_history locked (example_world\<lparr>history_file := Some three_lines\<rparr>))
     = Inr []
   \<and> fst (load_raw_history undecodable (example_world\<lparr>history_file := Some three_lines\<rparr>))
     = Inl unicode_decode_error
   \<and> fst (save_all example_env [(''hi'', ''hello'', ''t1'')]
            (example_world\<lparr>collection := None\<rparr>)) = Inr ()
   \<and> fst (load_raw_history example_env
            (snd (save_all example_env [(''hi'', ''hello'', ''t1'')]
                    (example_world\<lparr>collection := None\<rparr>)))) = Inr []
   \<and> fst (save_all example_env [(''hi'', ''hello'', ''t1'')]
            (example_world\<lparr>history_file := Some ''{''\<rparr>)) = Inr ()
   \<and> fst (load_raw_history example_env
            (snd (save_all example_env [(''hi'', ''hello'', ''t1'')]
                    (example_world\<lparr>history_file := Some ''{''\<rparr>)))) = Inr []
   \<and> fst (save_all (replying ''[]'' (JArr []))
            [(''hi'', ''hello'', ''t1''), (''hi'', ''hello'', ''t1'')] example_world) = Inl type_error
   \<and> fst (load_raw_history (replying ''[]'' (JArr []))
            (snd (save_all (replying ''[]'' (JArr []))
                    [(''hi'', ''hello'', ''t1''), (''hi'', ''hello'', ''t1'')] example_world)))
       = Inr [turn_data ''t1'' ''hi'' ''hello'']
   \<and> fst (save_all read_only [(''hi'', ''hello'', ''t1'')] example_world) = Inr ()
   \<and> fst (load_raw_history read_only
            (snd (save_all read_only [(''hi'', ''hello'', ''t1'')] example_world))) = Inr []"
  using load_huge_lines load_locked[of "example_world\<lparr>history_file := Some three_lines\<rparr>"]
    load_undecodable[where w = example_world and content = three_lines] replay_uninitialised
    replay_onto_brace replay_array_reply replay_read_only
  by (intro conjI)

text \<open>
  C10. When there is no history file, \<^verbatim>\<open>load_raw_history\<close> returns the empty list and
  raises nothing, and all it does is ask whether the path exists: the file is not
  opened.
\<close>

theorem load_raw_history_no_file:
  "history_file w = None \<Longrightarrow>
   fst (load_raw_history env w) = Inr []
   \<and> trace (snd (load_raw_history env w)) = trace w @ [PathExists]
   \<and> history_file (snd (load_raw_history env w)) = None"
  by (simp add: load_raw_history_def Let_def)

theorem load_raw_history_no_file_witness:
  "fst (load_raw_history example_env example_world) = Inr []
   \<and> trace (snd (load_raw_history example_env example_world)) = [PathExists]
   \<and> history_file (snd (load_raw_history example_env example_world)) = None"
  using load_raw_history_no_file[of example_world example_env]
  by (simp add: example_world_def)

text \<open>
  C2. \<^verbatim>\<open>retrieve_relevant_history\<close> returns the empty list when the collection is not
  initialised and when its count is 0. In both cases the trace has no more HTTP requests
  than before, so the embedding client is not called; with count 0 the only thing done
  is the call of \<^verbatim>\<open>count\<close>.
\<close>

theorem retrieve_relevant_history_short_circuit:
  "(collection w = None \<longrightarrow>
      fst (retrieve_relevant_history env query_text n w) = Inr []
      \<and> http_calls (trace (snd (retrieve_relevant_history env query_text n w))) = http_calls (trace w))
   \<and> (collection w = Some c \<and> count env c = Inr 0 \<longrightarrow>
      fst (retrieve_relevant_history env query_text n w) = Inr []
      \<and> trace (snd (retrieve_relevant_history env query_text n w)) = trace w @ [CollectionCount]
      \<and> http_calls (trace (snd (retrieve_relevant_history env query_text n w))) = http_calls (trace w))"
  by (simp add: retrieve_relevant_history_def Let_def)

theorem retrieve_relevant_history_short_circuit_witness:
  "fst (retrieve_relevant_history (replying ''{...}'' one_embedding) ''hi'' 3
          (example_world\<lparr>collection := None\<rparr>)) = Inr []
   \<and> http_calls (trace (snd (retrieve_relevant_history (replying ''{...}'' one_embedding) ''hi'' 3
          (example_world\<lparr>collection := None\<rparr>)))) = 0
   \<and> fst (retrieve_relevant_history (replying ''{...}'' one_embedding) ''hi'' 3 example_world) = Inr []
   \<and> trace (snd (retrieve_relevant_history (replying ''{...}'' one_embedding) ''hi'' 3 example_world))
       = [CollectionCount]
   \<and> http_calls (trace (snd (retrieve_relevant_history (replying ''{...}'' one_embedding) ''hi'' 3
          example_world))) = 0"
  using
    retrieve_relevant_history_short_circuit
      [of "example_world\<lparr>collection := None\<rparr>" "replying ''{...}'' one_embedding" "''hi''" 3]
    retrieve_relevant_history_short_circuit
      [of example_world "replying ''{...}'' one_embedding" "''hi''" 3 "[]"]
  by (simp add: example_world_def replying_def example_env_def index_count_def)

text \<open>
  C3, as amended. When the collection is an index as section 4.3 of the specification
  describes it and holds \<open>m\<close> records, \<open>0 < m < n\<close>, when \<^verbatim>\<open>get_embedding\<close> returns for
  the query an embedding that is not empty, and when \<^verbatim>\<open>json.loads\<close> accepts the document
  of every record, \<^verbatim>\<open>retrieve_relevant_history\<close> with the requested size \<open>n\<close> queries
  the collection with \<^verbatim>\<open>n_results\<close> equal to \<open>m\<close>, which is all it does after the
  embedding call, and returns exactly \<open>m\<close> results.
\<close>

theorem retrieve_clamps_to_count:
  assumes "collection w = Some c" and "count env = index_count"
    and "query env = index_query distance"
    and "length c = m" and "0 < m" and "int m < n"
    and "fst (get_embedding env q EMBEDDING_MODEL_NAME w) = Inr qe" and "truthy qe"
    and "\<forall>r \<in> set c. \<exists>v. loads env (record_document r) = Inr v"
  shows "trace (snd (retrieve_relevant_history env q n w)) =
        trace (snd (get_embedding env q EMBEDDING_MODEL_NAME (emit CollectionCount w)))
        @ [CollectionQuery qe (int m)]
    \<and> (\<exists>ts. fst (retrieve_relevant_history env q n w) = Inr ts \<and> length ts = m)"
proof -
  let ?docs = "map record_document (sort_key (\<lambda>r. distance qe (record_embedding r)) c)"
  have pos: "0 < n" and k: "min n (int m) = int m"
    using assms(5,6) by simp_all
  have cnt: "count env c = Inr m"
    by (simp add: assms(2,4) index_count_def)
  have eq: "retrieve_relevant_history env q n w =
           query_collection env c qe (int m)
             (snd (get_embedding env q EMBEDDING_MODEL_NAME (emit CollectionCount w)))"
    using retrieve_reaches_query[OF assms(1) cnt assms(5) pos assms(7,8)] k by simp
  have accepted: "\<forall>d \<in> set ?docs. parsed env d = Some ((the \<circ> parsed env) d)"
    using assms(9) by (auto simp: parsed_def)
  have ok: "list_all (decodes_or_rejects env) (map record_document c)"
    using assms(9) by (auto simp: list_all_iff decodes_or_rejects_def)
  have qr: "query env c qe (int m) = Inr (Some (?docs # []))"
    using assms(4) by (auto simp: assms(3) index_query_length)
  have ok': "list_all (decodes_or_rejects env) ?docs"
    using ok by (simp add: list_all_iff)
  have none: "filter (\<lambda>d. parsed env d = None) ?docs = []"
    using accepted by (auto simp: filter_empty_conv)
  have issued: "trace (snd (retrieve_relevant_history env q n w)) =
        trace (snd (get_embedding env q EMBEDDING_MODEL_NAME (emit CollectionCount w)))
        @ [CollectionQuery qe (int m)]"
    by (simp add: eq query_collection_documents[OF qr ok'] none)
  have "fst (retrieve_relevant_history env q n w) = Inr (List.map_filter (parsed env) ?docs)"
    using retrieve_from_index[OF assms(1-3) _ _ assms(7,8) ok, of n] assms(4-6) by simp
  moreover have "List.map_filter (parsed env) ?docs = map (the \<circ> parsed env) ?docs"
    using accepted by (rule map_filter_all_Some)
  ultimately have "fst (retrieve_relevant_history env q n w) = Inr (map (the \<circ> parsed env) ?docs)
      \<and> length (map (the \<circ> parsed env) ?docs) = m"
    using assms(4) by simp
  then show ?thesis using issued by blast
qed

theorem retrieve_clamps_to_count_witness:
  "trace (snd (retrieve_relevant_history (replying ''{...}'' one_embedding) ''hi'' 3
               (example_world\<lparr>collection := Some [stored ''t1'' example_line]\<rparr>)))
     = [CollectionCount,
        HttpPost (OLLAMA_BASE_URL @ ''/api/embeddings'')
          (JObj [(''model'', JStr EMBEDDING_MODEL_NAME), (''prompt'', JStr ''hi'')]),
        CollectionQuery (JArr [JNum 1, JNum 2]) 1]
   \<and> (\<exists>ts. fst (retrieve_relevant_history (replying ''{...}'' one_embedding) ''hi'' 3
               (example_world\<lparr>collection := Some [stored ''t1'' example_line]\<rparr>)) = Inr ts
           \<and> length ts = 1)"
  using retrieve_clamps_to_count
    [where w = "example_world\<lparr>collection := Some [stored ''t1'' example_line]\<rparr>"
       and c = "[stored ''t1'' example_line]" and env = "replying ''{...}'' one_embedding"
       and distance = "\<lambda>a b. 0" and m = 1 and n = 3 and q = "''hi''"
       and qe = "JArr [JNum 1, JNum 2]", OF _ _ _ _ _ _ example_embedding]
  by (simp add: replying_fields example_loads_documents stored_def example_embedding_trace
      example_world_fields)

text \<open>
  The claim as it was stated fails in both of these runs. One record, \<open>n = 3\<close> and
  Ollama unreachable: there is no embedding of the query, and the function returns the
  empty list. Three records, the second with a document that is not JSON, \<open>n = 5\<close> and
  an embedding of the query: the function returns two results.
\<close>

theorem retrieve_fewer_than_count:
  "index_count [stored ''t1'' example_line] = Inr 1
   \<and> fst (retrieve_relevant_history example_env ''hi'' 3
            (example_world\<lparr>collection := Some [stored ''t1'' example_line]\<rparr>)) = Inr []
   \<and> index_count stored_documents = Inr 3
   \<and> fst (retrieve_relevant_history (replying ''{...}'' one_embedding) ''hi'' 5
            (example_world\<lparr>collection := Some stored_documents\<rparr>))
       = Inr [turn_data ''t1'' ''hi'' ''hello'', JNull]"
proof -
  have a: "fst (retrieve_relevant_history example_env ''hi'' 3
            (example_world\<lparr>collection := Some [stored ''t1'' example_line]\<rparr>)) = Inr []"
    by (simp add: retrieve_relevant_history_def get_embedding_def get_embedding_except_def
        Let_def example_env_def index_count_def isinstance_def request_exception_def)
  have ok: "list_all (decodes_or_rejects (replying ''{...}'' one_embedding))
              (map record_document stored_documents)"
    by (simp add: decodes_or_rejects_def replying_fields example_loads_documents
        exception_classes stored_documents_facts)
  have "fst (retrieve_relevant_history (replying ''{...}'' one_embedding) ''hi'' 5
            (example_world\<lparr>collection := Some stored_documents\<rparr>))
       = Inr (List.map_filter (parsed (replying ''{...}'' one_embedding))
                (map record_document (sort_key (\<lambda>r. 0::rat) stored_documents)))"
    by (rule retrieve_from_index[where distance = "\<lambda>a b. 0", OF _ _ _ _ _ example_embedding _ ok])
       (simp_all add: replying_fields stored_documents_facts)
  then have b: "fst (retrieve_relevant_history (replying ''{...}'' one_embedding) ''hi'' 5
            (example_world\<lparr>collection := Some stored_documents\<rparr>))
       = Inr [turn_data ''t1'' ''hi'' ''hello'', JNull]"
    by (simp add: sort_key_const stored_documents_facts parsed_def replying_fields
        example_loads_documents List.map_filter_simps)
  show ?thesis
    using a b by (simp add: index_count_def stored_documents_facts)
qed

text \<open>
  C8, as amended. When the collection is initialised and not empty, the requested size
  is positive, \<^verbatim>\<open>get_embedding\<close> returns for the query an embedding that is not empty,
  the query answers with a list of documents, and on each of these documents
  \<^verbatim>\<open>json.loads\<close> raises nothing but \<^verbatim>\<open>json.JSONDecodeError\<close>,
  \<^verbatim>\<open>retrieve_relevant_history\<close> returns the values of the documents that
  \<^verbatim>\<open>json.loads\<close> accepts, in the order of the answer; after the embedding call, what
  it does is the query and then to print one message for each document that is
  rejected, in that order.
\<close>

theorem retrieve_skips_corrupted_documents:
  assumes "collection w = Some c" and "count env c = Inr m" and "0 < m" and "0 < n"
    and "fst (get_embedding env q EMBEDDING_MODEL_NAME w) = Inr qe" and "truthy qe"
    and "query env c qe (min n (int m)) = Inr (Some (docs # others))"
    and "list_all (decodes_or_rejects env) docs"
  shows "fst (retrieve_relevant_history env q n w) = Inr (List.map_filter (parsed env) docs)
    \<and> trace (snd (retrieve_relevant_history env q n w)) =
        trace (snd (get_embedding env q EMBEDDING_MODEL_NAME (emit CollectionCount w)))
        @ CollectionQuery qe (min n (int m))
        # map (\<lambda>d. Print (DocumentDecodeError d)) (filter (\<lambda>d. parsed env d = None) docs)"
proof -
  have "retrieve_relevant_history env q n w =
           query_collection env c qe (min n (int m))
             (snd (get_embedding env q EMBEDDING_MODEL_NAME (emit CollectionCount w)))"
    using assms(1-6) by (rule retrieve_reaches_query)
  then show ?thesis
    by (simp add: query_collection_documents[OF assms(7,8)])
qed

theorem retrieve_skips_corrupted_documents_witness:
  "fst (retrieve_relevant_history (replying ''{...}'' one_embedding) ''hi'' 3
          (example_world\<lparr>collection := Some stored_documents\<rparr>))
     = Inr [turn_data ''t1'' ''hi'' ''hello'', JNull]
   \<and> trace (snd (retrieve_relevant_history (replying ''{...}'' one_embedding) ''hi'' 3
                 (example_world\<lparr>collection := Some stored_documents\<rparr>)))
     = [CollectionCount,
        HttpPost (OLLAMA_BASE_URL @ ''/api/embeddings'')
          (JObj [(''model'', JStr EMBEDDING_MODEL_NAME), (''prompt'', JStr ''hi'')]),
        CollectionQuery (JArr [JNum 1, JNum 2]) 3,
        Print (DocumentDecodeError ''%%%'')]"
proof -
  have q: "query (replying ''{...}'' one_embedding) stored_documents (JArr [JNum 1, JNum 2])
             (min 3 (int 3)) = Inr (Some ([example_line, ''%%%'', ''null''] # []))"
    using example_index_query[of stored_documents "JArr [JNum 1, JNum 2]"]
    by (simp add: replying_fields stored_documents_facts)
  have c: "count (replying ''{...}'' one_embedding) stored_documents = Inr 3"
    by (simp add: replying_fields index_count_def stored_documents_facts)
  have ok: "list_all (decodes_or_rejects (replying ''{...}'' one_embedding))
              [example_line, ''%%%'', ''null'']"
    by (simp add: decodes_or_rejects_def replying_fields example_loads_documents exception_classes)
  have p: "parsed (replying ''{...}'' one_embedding) example_line = Some (turn_data ''t1'' ''hi'' ''hello'')"
    "parsed (replying ''{...}'' one_embedding) ''%%%'' = None"
    "parsed (replying ''{...}'' one_embedding) ''null'' = Some JNull"
    by (simp_all add: parsed_def replying_fields example_loads_documents)
  show ?thesis
    using retrieve_skips_corrupted_documents
      [where w = "example_world\<lparr>collection := Some stored_documents\<rparr>"
         and c = stored_documents and env = "replying ''{...}'' one_embedding" and m = 3
         and n = 3 and q = "''hi''" and qe = "JArr [JNum 1, JNum 2]"
         and docs = "[example_line, ''%%%'', ''null'']" and others = "[]",
       OF _ c _ _ example_embedding _ q ok]
    by (simp add: p List.map_filter_simps example_embedding_trace example_world_fields)
qed

text \<open>
  The claim as it was stated fails when \<^verbatim>\<open>json.loads\<close> raises another exception. On a
  document that is an integer of 5000 digits it raises \<^verbatim>\<open>ValueError\<close>; the clause
  inside the loop does not catch it, the clause around the query does, and the function
  returns the empty list, although the two other documents can be read.
\<close>

theorem retrieve_aborted_by_document:
  "map record_document stored_huge = [example_line, huge_number, ''null'']
   \<and> example_loads example_line = Inr (turn_data ''t1'' ''hi'' ''hello'')
   \<and> example_loads huge_number = Inl value_error
   \<and> example_loads ''null'' = Inr JNull
   \<and> fst (retrieve_relevant_history (replying ''{...}'' one_embedding) ''hi'' 3
            (example_world\<lparr>collection := Some stored_huge\<rparr>)) = Inr []"
proof -
  have c: "count (replying ''{...}'' one_embedding) stored_huge = Inr 3"
    by (simp add: replying_fields index_count_def stored_documents_facts)
  have q: "index_query (\<lambda>a b. 0) stored_huge (JArr [JNum 1, JNum 2]) 3
             = Inr (Some [[example_line, huge_number, ''null'']])"
    using example_index_query[of stored_huge "JArr [JNum 1, JNum 2]"]
    by (simp add: stored_documents_facts)
  have "retrieve_relevant_history (replying ''{...}'' one_embedding) ''hi'' 3
            (example_world\<lparr>collection := Some stored_huge\<rparr>) =
          query_collection (replying ''{...}'' one_embedding) stored_huge (JArr [JNum 1, JNum 2])
            (min 3 (int 3))
            (snd (get_embedding (replying ''{...}'' one_embedding) ''hi'' EMBEDDING_MODEL_NAME
                    (emit CollectionCount (example_world\<lparr>collection := Some stored_huge\<rparr>))))"
    by (rule retrieve_reaches_query[OF _ c _ _ example_embedding]) simp_all
  then have "fst (retrieve_relevant_history (replying ''{...}'' one_embedding) ''hi'' 3
            (example_world\<lparr>collection := Some stored_huge\<rparr>)) = Inr []"
    by (simp add: query_collection_def query_except_def Let_def q replying_fields
        example_loads_documents example_loads_huge exception_classes)
  then show ?thesis
    by (simp add: stored_documents_facts example_loads_documents example_loads_huge)
qed

section \<open>The prompt assembler\<close>

text \<open>
  C4. \<^verbatim>\<open>format_retrieved_history_for_prompt\<close> reads and writes no state: it is a function
  of its input. On the empty list it returns the empty string. On a list of turns that
  is not empty it returns the header, which is a title line and a separator line, and
  then for each turn, in the order given, the line \<^verbatim>\<open>User:\<close> with the text of the user,
  the line \<^verbatim>\<open>Bot:\<close> with the text of the bot, and a separator line. For one turn that
  is the header, one pair of lines and one separator at the end.
\<close>

theorem format_context_layout:
  "format_retrieved_history_for_prompt str_of [] = Inr []
   \<and> format_retrieved_history_for_prompt str_of (map (\<lambda>(i, u, b). turn_data i u b) (t # ts)) =
       Inr (''Relevant past conversation snippets (most relevant first):\<newline>'' @ ''---\<newline>''
            @ concat (map (\<lambda>(i, u, b). ''User: '' @ u @ ''\<newline>'' @ ''Bot: '' @ b @ ''\<newline>''
                                       @ ''---\<newline>'') (t # ts)))
   \<and> format_retrieved_history_for_prompt str_of [turn_data i u b] =
       Inr (''Relevant past conversation snippets (most relevant first):\<newline>'' @ ''---\<newline>''
            @ ''User: '' @ u @ ''\<newline>'' @ ''Bot: '' @ b @ ''\<newline>'' @ ''---\<newline>'')"
proof -
  have nonempty: "format_retrieved_history_for_prompt str_of (map (\<lambda>(i, u, b). turn_data i u b) (x # xs)) =
       Inr (history_header
            @ concat (map (\<lambda>(i, u, b). ''User: '' @ u @ ''\<newline>Bot: '' @ b @ ''\<newline>---\<newline>'') (x # xs)))"
    for x xs
    unfolding format_retrieved_history_for_prompt_def
    using format_docs_turns[of str_of "x # xs" history_header] by simp
  have one: "format_retrieved_history_for_prompt str_of [turn_data i u b] =
       Inr (history_header @ ''User: '' @ u @ ''\<newline>Bot: '' @ b @ ''\<newline>---\<newline>'')"
    using nonempty[of "(i, u, b)" "[]"] by simp
  have hdr: "history_header = ''Relevant past conversation snippets (most relevant first):\<newline>'' @ ''---\<newline>''"
    by (simp add: history_header_def)
  have blk: "(\<lambda>(i::string, u, b). ''User: '' @ u @ ''\<newline>Bot: '' @ b @ ''\<newline>---\<newline>'')
           = (\<lambda>(i, u, b). ''User: '' @ u @ ''\<newline>'' @ ''Bot: '' @ b @ ''\<newline>'' @ ''---\<newline>'')"
    by (simp add: fun_eq_iff)
  show ?thesis
    using nonempty[of t ts] one
    by (simp add: format_retrieved_history_for_prompt_def hdr blk)
qed

end
